theory Spec2Isabelle
  imports Complex_Main "HOL-Library.Finite_Map" "HOL-Library.Multiset"
begin

section \<open>Data model\<close>

text \<open>
  A track point as the \<^verbatim>\<open>LinePoint\<close> model stores it, without its owning line: the columns
  \<^verbatim>\<open>lat\<close>, \<^verbatim>\<open>lon\<close>, \<^verbatim>\<open>zoom\<close>, \<^verbatim>\<open>idx\<close> and (in the later schema) \<^verbatim>\<open>ele\<close>.
  Coordinates are only ever compared, never computed with, so they are modelled as reals.
\<close>

record trackPoint =
  lat :: real
  lon :: real
  zoom :: nat
  idx :: nat
  ele :: "int option"

text \<open>A row of the \<^verbatim>\<open>LinePoints\<close> table: a track point together with the foreign key \<^verbatim>\<open>lineId\<close>.\<close>

record linePoint = trackPoint +
  lineId :: nat

text \<open>A bounding box \<^verbatim>\<open>{top, bottom, left, right}\<close>.\<close>

record bbox =
  bbox_top :: real
  bbox_bottom :: real
  bbox_left :: real
  bbox_right :: real

text \<open>
  The argument of a point query: a bounding box with the \<^verbatim>\<open>zoom\<close> level and the optional
  nested \<^verbatim>\<open>except\<close> box.
\<close>

record bboxWithZoom = bbox +
  bbox_zoom :: nat
  bbox_except :: "bbox option"

section \<open>Sequelize where-conditions\<close>

text \<open>
  The query builder returns condition objects that the database evaluates. A condition is
  an object mapping column names to operator objects (\<^verbatim>\<open>{ lat: { lte: t, gte: b } }\<close>), or a
  combination by \<^verbatim>\<open>Sequelize.and\<close> / \<^verbatim>\<open>Sequelize.or\<close>; \<^verbatim>\<open>null\<close> may be passed as an
  argument of \<^verbatim>\<open>Sequelize.and\<close>.
\<close>

datatype column = Lat | Lon | Zoom | LineId

datatype operator = Lte real | Gte real | Lt real | Gt real | In "real list"

datatype whereCond =
    Obj "(column \<times> operator list) list"
  | Sequelize_and "whereCond list"
  | Sequelize_or "whereCond list"
  | Null

definition attr :: "column \<Rightarrow> linePoint \<Rightarrow> real" where
  "attr c p = (case c of Lat \<Rightarrow> lat p | Lon \<Rightarrow> lon p
                 | Zoom \<Rightarrow> real (zoom p) | LineId \<Rightarrow> real (lineId p))"

fun op_holds :: "real \<Rightarrow> operator \<Rightarrow> bool" where
  "op_holds v (Lte x) = (v \<le> x)"
| "op_holds v (Gte x) = (v \<ge> x)"
| "op_holds v (Lt x) = (v < x)"
| "op_holds v (Gt x) = (v > x)"
| "op_holds v (In xs) = (v \<in> set xs)"

text \<open>
  The meaning of a condition on a row: all operators of all columns of an object hold (the
  empty object \<^verbatim>\<open>{ }\<close> filters nothing), \<^verbatim>\<open>and\<close> is conjunction, \<^verbatim>\<open>or\<close> is disjunction and a
  \<^verbatim>\<open>null\<close> argument filters nothing.
\<close>

fun holds :: "whereCond \<Rightarrow> linePoint \<Rightarrow> bool" where
  "holds (Obj kvs) p = list_all (\<lambda>(c, ops). list_all (op_holds (attr c p)) ops) kvs"
| "holds (Sequelize_and cs) p = list_all (\<lambda>c. holds c p) cs"
| "holds (Sequelize_or cs) p = list_ex (\<lambda>c. holds c p) cs"
| "holds Null p = True"

section \<open>The bounding-box condition\<close>

text \<open>
  \<^verbatim>\<open>cond(key, value)\<close> of \<^verbatim>\<open>_makeBboxCondition\<close>. No caller in the sources passes a
  \<^verbatim>\<open>prefix\<close>, so the column name is the key itself.
\<close>

definition cond :: "column \<Rightarrow> operator list \<Rightarrow> whereCond" where
  "cond key val = Obj [(key, val)]"

text \<open>\<^verbatim>\<open>_makeBboxCondition(bbox)\<close>; an absent bbox is \<open>None\<close>.\<close>

definition makeBboxCondition :: "bboxWithZoom option \<Rightarrow> whereCond" where
  "makeBboxCondition b =
    (case b of
       None \<Rightarrow> Obj []
     | Some bbox \<Rightarrow>
        (let conditions = [cond Lat [Lte (bbox_top bbox), Gte (bbox_bottom bbox)]];
             conditions = conditions @
               [if bbox_right bbox < bbox_left bbox
                then Sequelize_or [cond Lon [Gte (bbox_left bbox)], cond Lon [Lte (bbox_right bbox)]]
                else cond Lon [Gte (bbox_left bbox), Lte (bbox_right bbox)]];
             conditions = conditions @
               (case bbox_except bbox of
                  None \<Rightarrow> []
                | Some ex \<Rightarrow>
                   (let exceptConditions =
                          [Sequelize_or [cond Lat [Gt (bbox_top ex)], cond Lat [Lt (bbox_bottom ex)]]];
                        exceptConditions = exceptConditions @
                          [if bbox_right ex < bbox_left ex
                           then cond Lon [Lt (bbox_left ex), Gt (bbox_right ex)]
                           else Sequelize_or [cond Lon [Lt (bbox_left ex)], cond Lon [Gt (bbox_right ex)]]]
                    in [Sequelize_or exceptConditions]))
         in Sequelize_and conditions))"

section \<open>Point queries of a single line\<close>

text \<open>
  The association getter \<^verbatim>\<open>Line.build({ id: lineId }).getLinePoints({ where, order: "idx" })\<close>:
  the rows of the line that satisfy the condition, in ascending order of \<^verbatim>\<open>idx\<close>. The table
  is the list of its rows in storage order.
\<close>

definition getLinePoints :: "linePoint list \<Rightarrow> nat \<Rightarrow> whereCond \<Rightarrow> linePoint list" where
  "getLinePoints table lid w = sort_key idx (filter (\<lambda>p. lineId p = lid \<and> holds w p) table)"

text \<open>
  \<^verbatim>\<open>getLinePointsByBbox(lineId, bboxWithZoom)\<close>; \<open>bboxWhere\<close> is its \<^verbatim>\<open>where\<close> option. The
  query selects the attribute \<^verbatim>\<open>idx\<close> only, so its result is the list of the indexes of the
  selected rows.
\<close>

definition bboxWhere :: "bboxWithZoom option \<Rightarrow> whereCond" where
  "bboxWhere bboxWithZoom =
     Sequelize_and [makeBboxCondition bboxWithZoom,
       (case bboxWithZoom of None \<Rightarrow> Null | Some b \<Rightarrow> Obj [(Zoom, [Lte (real (bbox_zoom b))])])]"

definition getLinePointsByBbox :: "linePoint list \<Rightarrow> nat \<Rightarrow> bboxWithZoom option \<Rightarrow> nat list" where
  "getLinePointsByBbox table lid bboxWithZoom = map idx (getLinePoints table lid (bboxWhere bboxWithZoom))"

section \<open>Bounding boxes as regions\<close>

text \<open>
  The region a bounding box denotes, in the words of the specification: latitudes between
  \<^verbatim>\<open>bottom\<close> and \<^verbatim>\<open>top\<close>; longitudes between \<^verbatim>\<open>left\<close> and \<^verbatim>\<open>right\<close>, or, when
  \<^verbatim>\<open>right < left\<close>, the union of \<^verbatim>\<open>[left, 180]\<close> and \<^verbatim>\<open>[-180, right]\<close>.
\<close>

definition inBbox :: "'a bbox_scheme \<Rightarrow> real \<Rightarrow> real \<Rightarrow> bool" where
  "inBbox b la lo \<longleftrightarrow>
     bbox_bottom b \<le> la \<and> la \<le> bbox_top b \<and>
     (if bbox_right b < bbox_left b
      then (bbox_left b \<le> lo \<and> lo \<le> 180) \<or> (- 180 \<le> lo \<and> lo \<le> bbox_right b)
      else bbox_left b \<le> lo \<and> lo \<le> bbox_right b)"

text \<open>The validation bounds of the \<^verbatim>\<open>lat\<close> and \<^verbatim>\<open>lon\<close> columns (\<^verbatim>\<open>getLatType\<close>, \<^verbatim>\<open>getLonType\<close>).\<close>

definition validPos :: "'a trackPoint_scheme \<Rightarrow> bool" where
  "validPos p \<longleftrightarrow> - 90 \<le> lat p \<and> lat p \<le> 90 \<and> - 180 \<le> lon p \<and> lon p \<le> 180"

text \<open>A plain bounding box as a query argument without \<^verbatim>\<open>except\<close>.\<close>

definition withZoom :: "bbox \<Rightarrow> nat \<Rightarrow> bboxWithZoom" where
  "withZoom b z = bbox.extend b (bboxWithZoom.fields z None)"

definition withExcept :: "bbox \<Rightarrow> nat \<Rightarrow> bbox \<Rightarrow> bboxWithZoom" where
  "withExcept b z ex = bbox.extend b (bboxWithZoom.fields z (Some ex))"

section \<open>Point queries of a whole pad\<close>

text \<open>A row of the \<^verbatim>\<open>Lines\<close> table, reduced to the columns the point query reads.\<close>

record lineRow =
  line_id :: nat
  line_padId :: string

text \<open>
  \<^verbatim>\<open>.batch(n)\<close> of the stream of line ids: consecutive chunks of at most \<open>n\<close> elements.
\<close>

function batch :: "nat \<Rightarrow> 'a list \<Rightarrow> 'a list list" where
  "batch n xs = (if n = 0 \<or> xs = [] then [] else take n xs # batch n (drop n xs))"
  by pat_completeness auto
termination
  by (relation "measure (\<lambda>(n, xs). length xs)") auto

declare batch.simps [simp del]

text \<open>
  \<^verbatim>\<open>Object.entries(groupBy(linePoints, "lineId"))\<close>: one entry per line id that occurs, the
  integer keys in ascending order, each with its rows in the order of the input.
\<close>

definition groupBy_lineId :: "linePoint list \<Rightarrow> (nat \<times> linePoint list) list" where
  "groupBy_lineId rows =
     map (\<lambda>key. (key, filter (\<lambda>p. lineId p = key) rows)) (sort (remdups (map lineId rows)))"

text \<open>
  \<^verbatim>\<open>DatabaseLines.getLinePointsForPad(padId, bboxWithZoom)\<close>. Neither \<^verbatim>\<open>findAll\<close> has an
  \<^verbatim>\<open>order\<close> option, so the database returns the matching rows in an order of its choice:
  \<open>lineOrder\<close> and \<open>rowOrder\<close> are parameters that rearrange the matching lines and the
  matching points. The condition builder \<^verbatim>\<open>makeBboxCondition\<close> of \<^verbatim>\<open>helpers.js\<close> is not part
  of the sources and is the parameter \<open>mkBbox\<close>. \<open>padGroups\<close> is the function mapped over
  the batches of line ids; each entry of the result is \<^verbatim>\<open>{ id, trackPoints }\<close>, the points
  without \<^verbatim>\<open>lineId\<close>.
\<close>

definition padGroups ::
  "(bboxWithZoom option \<Rightarrow> whereCond) \<Rightarrow> (linePoint list \<Rightarrow> linePoint list) \<Rightarrow> linePoint list
     \<Rightarrow> bboxWithZoom \<Rightarrow> nat list \<Rightarrow> (nat \<times> trackPoint list) list" where
  "padGroups mkBbox rowOrder table bboxWithZoom lineIds =
     (let linePoints = rowOrder (filter (holds (Sequelize_and
            [Obj [(Zoom, [Lte (real (bbox_zoom bboxWithZoom))]), (LineId, [In (map real lineIds)])],
             mkBbox (Some bboxWithZoom)])) table)
      in map (\<lambda>(key, val). (key, map trackPoint.truncate val)) (groupBy_lineId linePoints))"

definition getLinePointsForPad ::
  "(bboxWithZoom option \<Rightarrow> whereCond) \<Rightarrow> (lineRow list \<Rightarrow> lineRow list)
     \<Rightarrow> (linePoint list \<Rightarrow> linePoint list) \<Rightarrow> lineRow list \<Rightarrow> linePoint list \<Rightarrow> string
     \<Rightarrow> bboxWithZoom \<Rightarrow> (nat \<times> trackPoint list) list" where
  "getLinePointsForPad mkBbox lineOrder rowOrder lineTable table padId bboxWithZoom =
     concat (map (padGroups mkBbox rowOrder table bboxWithZoom)
       (batch 50000 (map line_id (lineOrder (filter (\<lambda>l. line_padId l = padId) lineTable)))))"

text \<open>
  One order a database can choose: the rows as read through the index on
  \<^verbatim>\<open>(lineId, zoom)\<close> that the \<^verbatim>\<open>LinePoint\<close> model declares, that is ascending by \<^verbatim>\<open>lineId\<close>,
  then by \<^verbatim>\<open>zoom\<close>, then in storage order.
\<close>

definition indexOrder :: "linePoint list \<Rightarrow> linePoint list" where
  "indexOrder rows = sort_key lineId (sort_key zoom rows)"

section \<open>Replacing the points of a line\<close>

type_synonym error = string

text \<open>
  The table is changed by database statements, each of which takes effect as a whole or
  not at all: \<^verbatim>\<open>LinePoint.destroy({ where: { lineId } })\<close> and \<^verbatim>\<open>LinePoint.bulkCreate(rows)\<close>.
  \<^verbatim>\<open>lineId\<close> is a foreign key that may not be null (\<^verbatim>\<open>_makeNotNullForeignKey\<close>), so an insert
  of a row whose line does not exist is refused; \<open>lineIds\<close> are the ids of the existing
  lines. Failures of the connection are not modelled.
\<close>

datatype stmt = Destroy nat | BulkCreate "linePoint list"

fun exec :: "nat list \<Rightarrow> stmt \<Rightarrow> linePoint list \<Rightarrow> error + linePoint list" where
  "exec lineIds (Destroy lid) table = Inr (filter (\<lambda>p. lineId p \<noteq> lid) table)"
| "exec lineIds (BulkCreate rows) table =
     (if list_all (\<lambda>r. lineId r \<in> set lineIds) rows then Inr (table @ rows)
      else Inl ''foreign key constraint fails'')"

text \<open>
  Statements awaited one after the other: the first failure rejects the call and the
  statements after it are not issued. The result is the error, if any, and the table
  that is left.
\<close>

fun run :: "nat list \<Rightarrow> stmt list \<Rightarrow> linePoint list \<Rightarrow> error option \<times> linePoint list" where
  "run lineIds [] table = (None, table)"
| "run lineIds (s # ss) table =
     (case exec lineIds s table of
        Inl err \<Rightarrow> (Some err, table)
      | Inr table' \<Rightarrow> run lineIds ss table')"

text \<open>The states of the table a reader can see while the statements run.\<close>

fun states :: "nat list \<Rightarrow> linePoint list \<Rightarrow> stmt list \<Rightarrow> linePoint list list" where
  "states lineIds table [] = [table]"
| "states lineIds table (s # ss) =
     table # (case exec lineIds s table of
                Inl err \<Rightarrow> []
              | Inr table' \<Rightarrow> states lineIds table' ss)"

text \<open>The rows built by the loop: \<^verbatim>\<open>extend({ }, trackPoints[i], { lineId: lineId })\<close>.\<close>

definition create :: "nat \<Rightarrow> trackPoint list \<Rightarrow> linePoint list" where
  "create lid trackPoints = map (\<lambda>tp. trackPoint.extend tp (linePoint.fields lid)) trackPoints"

text \<open>\<^verbatim>\<open>setLinePoints(lineId, trackPoints)\<close> of the Sequelize backend: the statements it issues.\<close>

definition setLinePoints_stmts :: "nat \<Rightarrow> trackPoint list \<Rightarrow> stmt list" where
  "setLinePoints_stmts lid trackPoints = [Destroy lid, BulkCreate (create lid trackPoints)]"

definition setLinePoints ::
  "nat list \<Rightarrow> linePoint list \<Rightarrow> nat \<Rightarrow> trackPoint list \<Rightarrow> error option \<times> linePoint list" where
  "setLinePoints lineIds table lid trackPoints = run lineIds (setLinePoints_stmts lid trackPoints) table"

text \<open>
  \<^verbatim>\<open>DatabaseLines._setLinePoints(padId, lineId, trackPoints, _noEvent)\<close>. The helper
  \<^verbatim>\<open>_bulkCreateInBatches\<close> is not part of the sources; it inserts the rows in consecutive
  batches, whose size is the parameter \<open>n\<close>. The last component is the \<^verbatim>\<open>linePoints\<close> event
  emitted after the last batch, if any.
\<close>

definition setLinePoints_batched_stmts :: "nat \<Rightarrow> nat \<Rightarrow> trackPoint list \<Rightarrow> stmt list" where
  "setLinePoints_batched_stmts n lid trackPoints =
     Destroy lid # map BulkCreate (batch n (create lid trackPoints))"

definition setLinePoints_batched ::
  "nat \<Rightarrow> nat list \<Rightarrow> linePoint list \<Rightarrow> string \<Rightarrow> nat \<Rightarrow> trackPoint list \<Rightarrow> bool
     \<Rightarrow> (error option \<times> linePoint list) \<times> (string \<times> nat \<times> trackPoint list) list" where
  "setLinePoints_batched n lineIds table padId lid trackPoints noEvent =
     (case run lineIds (setLinePoints_batched_stmts n lid trackPoints) table of
        (Some err, table') \<Rightarrow> ((Some err, table'), [])
      | (None, table') \<Rightarrow>
          ((None, table'),
           if noEvent then []
           else [(padId, lid, map trackPoint.truncate (create lid trackPoints))]))"

section \<open>Mutations and their broadcast\<close>

text \<open>
  An object as the backend hands it to its callback: its \<^verbatim>\<open>id\<close>, the pad it belongs to
  (\<^verbatim>\<open>_pad\<close>), and the fields the wrappers read (\<^verbatim>\<open>name\<close>, \<^verbatim>\<open>position\<close>). The name is the
  one string whose characters are inspected; it is the list of its UTF-16 code units.
\<close>

record dbObject =
  obj_id :: nat
  obj_pad :: string
  obj_name :: "nat list option"
  obj_position :: "(real \<times> real) option"

datatype payload = Whole dbObject | IdOnly nat

text \<open>A call \<^verbatim>\<open>listeners.notifyPadListeners(padId, position, eventType, data)\<close>.\<close>

datatype notification = Notify string "(real \<times> real) option" string payload

text \<open>
  The storage backend is external. A backend function calls back with either an error or
  the written object: \<^verbatim>\<open>callback(err, data)\<close> is a value of \<open>error + dbObject\<close>.
\<close>

record backend =
  backend_getPadData :: "string \<Rightarrow> error + dbObject option"
  backend_createPad :: "string \<Rightarrow> error + dbObject"
  backend_updatePadData :: "string \<Rightarrow> dbObject \<Rightarrow> error + dbObject"
  backend_createView :: "string \<Rightarrow> dbObject \<Rightarrow> error + dbObject"
  backend_updateView :: "nat \<Rightarrow> dbObject \<Rightarrow> error + dbObject"
  backend_deleteView :: "nat \<Rightarrow> error + dbObject"
  backend_createMarker :: "string \<Rightarrow> dbObject \<Rightarrow> error + dbObject"
  backend_updateMarker :: "nat \<Rightarrow> dbObject \<Rightarrow> error + dbObject"
  backend_deleteMarker :: "nat \<Rightarrow> error + dbObject"
  backend_createLine :: "string \<Rightarrow> dbObject \<Rightarrow> error + dbObject"
  backend_updateLine :: "nat \<Rightarrow> dbObject \<Rightarrow> error + dbObject"
  backend_deleteLine :: "nat \<Rightarrow> error + dbObject"

text \<open>
  \<^verbatim>\<open>getPadData(padId, callback)\<close>: the value passed to the callback. The lookup calls back
  with an error, with the pad, or with \<^verbatim>\<open>null\<close> when there is no such pad.
\<close>

definition getPadData :: "backend \<Rightarrow> string \<Rightarrow> error + dbObject" where
  "getPadData backend padId =
     (case backend_getPadData backend padId of
        Inl err \<Rightarrow> Inl err
      | Inr (Some data) \<Rightarrow> Inr data
      | Inr None \<Rightarrow> backend_createPad backend padId)"

text \<open>
  Each wrapper returns the value passed to the caller's callback and the notifications it
  sent to the pad listeners.
\<close>

definition updatePadData :: "backend \<Rightarrow> string \<Rightarrow> dbObject \<Rightarrow> (error + dbObject) \<times> notification list" where
  "updatePadData backend padId data =
     (case backend_updatePadData backend padId data of
        Inl err \<Rightarrow> (Inl err, [])
      | Inr data \<Rightarrow> (Inr data, [Notify padId None ''padData'' (Whole data)]))"

text \<open>
  The white space and line terminators that \<^verbatim>\<open>String.prototype.trim\<close> strips, as UTF-16
  code units: TAB, LF, VT, FF, CR, SP, NBSP, U+1680, U+2000 to U+200A, LS, PS, U+202F,
  U+205F, U+3000 and U+FEFF.
\<close>

definition isSpace :: "nat \<Rightarrow> bool" where
  "isSpace c \<longleftrightarrow>
     c \<in> {9, 10, 11, 12, 13, 32, 160, 5760, 8232, 8233, 8239, 8287, 12288, 65279} \<or>
     (8192 \<le> c \<and> c \<le> 8202)"

definition trim :: "nat list \<Rightarrow> nat list" where
  "trim s = rev (dropWhile isSpace (rev (dropWhile isSpace s)))"

text \<open>\<^verbatim>\<open>data.name == null || data.name.trim().length == 0\<close>\<close>

definition noName :: "dbObject \<Rightarrow> bool" where
  "noName data \<longleftrightarrow> (case obj_name data of None \<Rightarrow> True | Some n \<Rightarrow> length (trim n) = 0)"

definition createView :: "backend \<Rightarrow> string \<Rightarrow> dbObject \<Rightarrow> (error + dbObject) \<times> notification list" where
  "createView backend padId data =
     (if noName data then (Inl ''No name provided.'', [])
      else case backend_createView backend padId data of
             Inl err \<Rightarrow> (Inl err, [])
           | Inr data \<Rightarrow> (Inr data, [Notify (obj_pad data) None ''view'' (Whole data)]))"

definition updateView :: "backend \<Rightarrow> nat \<Rightarrow> dbObject \<Rightarrow> (error + dbObject) \<times> notification list" where
  "updateView backend viewId data =
     (if noName data then (Inl ''No name provided.'', [])
      else case backend_updateView backend viewId data of
             Inl err \<Rightarrow> (Inl err, [])
           | Inr data \<Rightarrow> (Inr data, [Notify (obj_pad data) None ''view'' (Whole data)]))"

definition deleteView :: "backend \<Rightarrow> nat \<Rightarrow> (error + dbObject) \<times> notification list" where
  "deleteView backend viewId =
     (case backend_deleteView backend viewId of
        Inl err \<Rightarrow> (Inl err, [])
      | Inr data \<Rightarrow> (Inr data, [Notify (obj_pad data) None ''deleteView'' (IdOnly (obj_id data))]))"

definition createMarker :: "backend \<Rightarrow> string \<Rightarrow> dbObject \<Rightarrow> (error + dbObject) \<times> notification list" where
  "createMarker backend padId data =
     (case backend_createMarker backend padId data of
        Inl err \<Rightarrow> (Inl err, [])
      | Inr data \<Rightarrow> (Inr data, [Notify padId (obj_position data) ''marker'' (Whole data)]))"

definition updateMarker :: "backend \<Rightarrow> nat \<Rightarrow> dbObject \<Rightarrow> (error + dbObject) \<times> notification list" where
  "updateMarker backend markerId data =
     (case backend_updateMarker backend markerId data of
        Inl err \<Rightarrow> (Inl err, [])
      | Inr data \<Rightarrow> (Inr data, [Notify (obj_pad data) (obj_position data) ''marker'' (Whole data)]))"

definition deleteMarker :: "backend \<Rightarrow> nat \<Rightarrow> (error + dbObject) \<times> notification list" where
  "deleteMarker backend markerId =
     (case backend_deleteMarker backend markerId of
        Inl err \<Rightarrow> (Inl err, [])
      | Inr data \<Rightarrow>
          (Inr data, [Notify (obj_pad data) (obj_position data) ''deleteMarker'' (IdOnly (obj_id data))]))"

definition createLine :: "backend \<Rightarrow> string \<Rightarrow> dbObject \<Rightarrow> (error + dbObject) \<times> notification list" where
  "createLine backend padId data =
     (case backend_createLine backend padId data of
        Inl err \<Rightarrow> (Inl err, [])
      | Inr data \<Rightarrow> (Inr data, [Notify (obj_pad data) None ''line'' (Whole data)]))"

definition updateLine :: "backend \<Rightarrow> dbObject \<Rightarrow> (error + dbObject) \<times> notification list" where
  "updateLine backend data =
     (case backend_updateLine backend (obj_id data) data of
        Inl err \<Rightarrow> (Inl err, [])
      | Inr data \<Rightarrow> (Inr data, [Notify (obj_pad data) None ''line'' (Whole data)]))"

definition deleteLine :: "backend \<Rightarrow> nat \<Rightarrow> (error + dbObject) \<times> notification list" where
  "deleteLine backend lineId' =
     (case backend_deleteLine backend lineId' of
        Inl err \<Rightarrow> (Inl err, [])
      | Inr data \<Rightarrow> (Inr data, [Notify (obj_pad data) None ''deleteLine'' (IdOnly (obj_id data))]))"

section \<open>The client\<close>

text \<open>
  \<^verbatim>\<open>TrackPoints\<close>: a sparse object from \<^verbatim>\<open>idx\<close> to track point with a \<^verbatim>\<open>length\<close> property.
  The empty object \<^verbatim>\<open>{ }\<close> has no \<^verbatim>\<open>length\<close>; the merge never reads the old one.
\<close>

record TrackPoints =
  points :: "(nat, trackPoint) fmap"
  length' :: nat

text \<open>
  \<^verbatim>\<open>_mergeTrackPoints(existingTrackPoints, newTrackPoints)\<close>: copy the existing object, store
  every new point under its \<^verbatim>\<open>idx\<close>, then recompute \<^verbatim>\<open>length\<close> by the loop over the keys
  (\<^verbatim>\<open>for ... in\<close> visits integer keys in ascending order).
\<close>

definition mergeTrackPoints :: "TrackPoints option \<Rightarrow> trackPoint list \<Rightarrow> TrackPoints" where
  "mergeTrackPoints existingTrackPoints newTrackPoints =
     (let ret = fold (\<lambda>p r. fmupd (idx p) p r) newTrackPoints
                  (case existingTrackPoints of None \<Rightarrow> fmempty | Some e \<Rightarrow> points e)
      in \<lparr> points = ret,
           length' = fold (\<lambda>i len. max len (i + 1)) (sorted_list_of_fset (fmdom ret)) 0 \<rparr>)"

record marker =
  marker_id :: nat
  marker_name :: string
  marker_lat :: real
  marker_lon :: real

record line =
  line_id' :: nat
  line_name :: string

record lineWithTrackPoints = line +
  trackPoints :: TrackPoints

record view =
  view_id :: nat
  view_name :: string

record type =
  type_id :: nat
  type_name :: string

record padData =
  pad_id :: string
  pad_writeId :: "string option"
  pad_adminId :: "string option"
  pad_name :: string
  pad_writable :: "nat option"
  defaultViewId :: "nat option"

text \<open>The fields of \<^verbatim>\<open>Client\<close> that the handlers and \<^verbatim>\<open>updateBbox\<close> read or write.\<close>

record client =
  disconnected :: bool
  padId :: "string option"
  bbox :: "bboxWithZoom option"
  padData :: "padData option"
  readonly :: "bool option"
  writable :: "nat option"
  deleted :: bool
  markers :: "nat \<rightharpoonup> marker"
  lines :: "nat \<rightharpoonup> lineWithTrackPoints"
  views :: "nat \<rightharpoonup> view"
  types :: "nat \<rightharpoonup> type"
  loading :: int

text \<open>The events pushed by the server, and the two load events the client sends itself.\<close>

datatype event =
    Ev_padData padData
  | Ev_deletePad
  | Ev_marker marker
  | Ev_deleteMarker nat
  | Ev_line line
  | Ev_deleteLine nat
  | Ev_linePoints nat "trackPoint list" bool
  | Ev_view view
  | Ev_deleteView nat
  | Ev_type type
  | Ev_deleteType nat
  | Ev_disconnect
  | Ev_loadStart
  | Ev_loadEnd

text \<open>
  \<^verbatim>\<open>_handlers\<close>: the effect of one event on the client. \<^verbatim>\<open>Ev_linePoints id trackPoints reset\<close>
  for an unknown line only logs an error.
\<close>

fun handlers :: "client \<Rightarrow> event \<Rightarrow> client" where
  "handlers c (Ev_padData data) =
     (let c = c\<lparr>padData := Some data\<rparr>;
          c = (case pad_writable data of
                 None \<Rightarrow> c
               | Some w \<Rightarrow> c\<lparr>readonly := Some (w = 0), writable := Some w\<rparr>);
          id = (if writable c = Some 2 then pad_adminId data
                else if writable c = Some 1 then pad_writeId data
                else Some (pad_id data))
      in case id of None \<Rightarrow> c | Some i \<Rightarrow> c\<lparr>padId := Some i\<rparr>)"
| "handlers c Ev_deletePad = c\<lparr>readonly := Some True, writable := Some 0, deleted := True\<rparr>"
| "handlers c (Ev_marker data) = c\<lparr>markers := (markers c)(marker_id data \<mapsto> data)\<rparr>"
| "handlers c (Ev_deleteMarker i) = c\<lparr>markers := (markers c)(i := None)\<rparr>"
| "handlers c (Ev_line data) =
     c\<lparr>lines := (lines c)(line_id' data \<mapsto>
          line.extend data (lineWithTrackPoints.fields
            (case lines c (line_id' data) of
               Some l \<Rightarrow> trackPoints l
             | None \<Rightarrow> \<lparr>points = fmempty, length' = 0\<rparr>)))\<rparr>"
| "handlers c (Ev_deleteLine i) = c\<lparr>lines := (lines c)(i := None)\<rparr>"
| "handlers c (Ev_linePoints i tps reset) =
     (case lines c i of
        None \<Rightarrow> c
      | Some line \<Rightarrow>
          c\<lparr>lines := (lines c)(i \<mapsto>
               line\<lparr>trackPoints :=
                 mergeTrackPoints (if reset then None else Some (trackPoints line)) tps\<rparr>)\<rparr>)"
| "handlers c (Ev_view data) = c\<lparr>views := (views c)(view_id data \<mapsto> data)\<rparr>"
| "handlers c (Ev_deleteView i) =
     (let c = c\<lparr>views := (views c)(i := None)\<rparr>
      in case padData c of
           None \<Rightarrow> c
         | Some pd \<Rightarrow>
             if defaultViewId pd = Some i then c\<lparr>padData := Some (pd\<lparr>defaultViewId := None\<rparr>)\<rparr>
             else c)"
| "handlers c (Ev_type data) = c\<lparr>types := (types c)(type_id data \<mapsto> data)\<rparr>"
| "handlers c (Ev_deleteType i) = c\<lparr>types := (types c)(i := None)\<rparr>"
| "handlers c Ev_disconnect =
     c\<lparr>disconnected := True, markers := Map.empty, lines := Map.empty, views := Map.empty\<rparr>"
| "handlers c Ev_loadStart = c\<lparr>loading := loading c + 1\<rparr>"
| "handlers c Ev_loadEnd = c\<lparr>loading := loading c - 1\<rparr>"

text \<open>
  \<^verbatim>\<open>_receiveMultiple(obj)\<close>: every event of the reply is handled in turn; the reply may be
  absent.
\<close>

definition receiveMultiple :: "client \<Rightarrow> event list option \<Rightarrow> client" where
  "receiveMultiple c obj = (case obj of None \<Rightarrow> c | Some evs \<Rightarrow> fold (\<lambda>ev c. handlers c ev) evs c)"

text \<open>
  \<^verbatim>\<open>_emit(eventName, data)\<close>: the request is bracketed by \<^verbatim>\<open>loadStart\<close> and \<^verbatim>\<open>loadEnd\<close>; the
  server's acknowledgement, an error or a reply, is the parameter \<open>ack\<close>.
\<close>

definition emit :: "client \<Rightarrow> (error + 'r) \<Rightarrow> (error + 'r) \<times> client" where
  "emit c ack = (ack, handlers (handlers c Ev_loadStart) Ev_loadEnd)"

text \<open>
  \<^verbatim>\<open>updateBbox(bbox)\<close>: the new bbox is stored, then the request is sent and the events of
  the reply are applied. A rejected request rejects the call with the server's error.
\<close>

definition updateBbox ::
  "client \<Rightarrow> bboxWithZoom \<Rightarrow> (error + event list option) \<Rightarrow> (error + unit) \<times> client" where
  "updateBbox c b ack =
     (let c = c\<lparr>bbox := Some b\<rparr>
      in case emit c ack of
           (Inl err, c) \<Rightarrow> (Inl err, c)
         | (Inr obj, c) \<Rightarrow> (Inr (), receiveMultiple c obj))"

text \<open>
  A malformed viewport in the words of the specification: \<^verbatim>\<open>left\<close> or \<^verbatim>\<open>right\<close> outside
  \<^verbatim>\<open>[-180, 180]\<close>, or \<^verbatim>\<open>top < bottom\<close>.
\<close>

definition malformedBbox :: "'a bbox_scheme \<Rightarrow> bool" where
  "malformedBbox b \<longleftrightarrow>
     bbox_left b < - 180 \<or> 180 < bbox_left b \<or> bbox_right b < - 180 \<or> 180 < bbox_right b \<or>
     bbox_top b < bbox_bottom b"

section \<open>Example data\<close>

text \<open>
  The scenario of the specification: a pad \<^verbatim>\<open>P\<close> with one line between \<^verbatim>\<open>(0,0)\<close> and
  \<^verbatim>\<open>(1,1)\<close> whose points are tagged \<^verbatim>\<open>idx0 zoom1\<close>, \<^verbatim>\<open>idx1 zoom1\<close>, \<^verbatim>\<open>idx2 zoom10\<close>.
\<close>

definition scenario_bbox :: bbox where
  "scenario_bbox = \<lparr>bbox_top = 1, bbox_bottom = 0, bbox_left = 0, bbox_right = 1\<rparr>"

definition scenario_point :: "nat \<Rightarrow> real \<Rightarrow> real \<Rightarrow> nat \<Rightarrow> linePoint" where
  "scenario_point i la lo z = \<lparr>lat = la, lon = lo, zoom = z, idx = i, ele = None, lineId = 1\<rparr>"

definition scenario_table :: "linePoint list" where
  "scenario_table =
     [scenario_point 0 0 0 1, scenario_point 1 (1 / 2) (1 / 2) 1, scenario_point 2 1 1 10]"

definition scenario_lines :: "lineRow list" where
  "scenario_lines = [\<lparr>line_id = 1, line_padId = ''P''\<rparr>]"

text \<open>Boxes across the antimeridian and a line with points on both sides of it.\<close>

definition pacific_bbox :: bbox where
  "pacific_bbox = \<lparr>bbox_top = 10, bbox_bottom = - 10, bbox_left = 170, bbox_right = - 170\<rparr>"

definition pacific_inner_bbox :: bbox where
  "pacific_inner_bbox = \<lparr>bbox_top = 5, bbox_bottom = - 5, bbox_left = 175, bbox_right = - 175\<rparr>"

definition pacific_table :: "linePoint list" where
  "pacific_table =
     [scenario_point 0 0 172 1, scenario_point 1 0 179 1, scenario_point 2 0 (- 179) 1,
      scenario_point 3 0 (- 172) 1, scenario_point 4 0 0 1]"

text \<open>A second line in the same table, and client-side track points.\<close>

definition two_line_table :: "linePoint list" where
  "two_line_table = scenario_table @ [(scenario_point 0 0 0 1)\<lparr>lineId := 2\<rparr>]"

definition tp :: "nat \<Rightarrow> real \<Rightarrow> trackPoint" where
  "tp i x = \<lparr>lat = x, lon = x, zoom = 1, idx = i, ele = None\<rparr>"

text \<open>A backend without pads that accepts every write and knows no object to delete.\<close>

definition example_pad :: dbObject where
  "example_pad = \<lparr>obj_id = 0, obj_pad = ''P'', obj_name = None, obj_position = None\<rparr>"

definition empty_backend :: backend where
  "empty_backend =
     \<lparr>backend_getPadData = (\<lambda>_. Inr None),
      backend_createPad = (\<lambda>p. Inr (example_pad\<lparr>obj_pad := p\<rparr>)),
      backend_updatePadData = (\<lambda>_ d. Inr d),
      backend_createView = (\<lambda>p d. Inr (d\<lparr>obj_pad := p\<rparr>)),
      backend_updateView = (\<lambda>_ d. Inr d),
      backend_deleteView = (\<lambda>_. Inl ''not found''),
      backend_createMarker = (\<lambda>p d. Inr (d\<lparr>obj_pad := p\<rparr>)),
      backend_updateMarker = (\<lambda>_ d. Inr d),
      backend_deleteMarker = (\<lambda>_. Inl ''not found''),
      backend_createLine = (\<lambda>p d. Inr (d\<lparr>obj_pad := p\<rparr>)),
      backend_updateLine = (\<lambda>_ d. Inr d),
      backend_deleteLine = (\<lambda>_. Inl ''not found'')\<rparr>"

text \<open>A connected client with two views, one of them the default view, and a viewport.\<close>

definition example_client :: client where
  "example_client =
     \<lparr>disconnected = False, padId = Some ''P'', bbox = Some (withZoom scenario_bbox 5),
      padData = Some \<lparr>pad_id = ''P'', pad_writeId = None, pad_adminId = None, pad_name = ''Pad'',
                      pad_writable = Some 0, defaultViewId = Some 7\<rparr>,
      readonly = Some True, writable = Some 0, deleted = False,
      markers = Map.empty, lines = Map.empty,
      views = [7 \<mapsto> \<lparr>view_id = 7, view_name = ''Home''\<rparr>, 8 \<mapsto> \<lparr>view_id = 8, view_name = ''Away''\<rparr>],
      types = Map.empty, loading = 0\<rparr>"

definition malformed_example :: bbox where
  "malformed_example = \<lparr>bbox_top = 0, bbox_bottom = 1, bbox_left = 200, bbox_right = 0\<rparr>"

section \<open>Properties of the bounding-box condition\<close>

lemma holds_makeBboxCondition:
  "holds (makeBboxCondition (Some b)) p \<longleftrightarrow>
     (lat p \<le> bbox_top b \<and> lat p \<ge> bbox_bottom b) \<and>
     (if bbox_right b < bbox_left b then lon p \<ge> bbox_left b \<or> lon p \<le> bbox_right b
      else lon p \<ge> bbox_left b \<and> lon p \<le> bbox_right b) \<and>
     (case bbox_except b of None \<Rightarrow> True
      | Some ex \<Rightarrow> (lat p > bbox_top ex \<or> lat p < bbox_bottom ex) \<or>
          (if bbox_right ex < bbox_left ex then lon p < bbox_left ex \<and> lon p > bbox_right ex
           else lon p < bbox_left ex \<or> lon p > bbox_right ex))"
  by (cases "bbox_except b") (simp_all add: makeBboxCondition_def cond_def attr_def Let_def)

lemma withZoom_sel [simp]:
  "bbox_top (withZoom b z) = bbox_top b" "bbox_bottom (withZoom b z) = bbox_bottom b"
  "bbox_left (withZoom b z) = bbox_left b" "bbox_right (withZoom b z) = bbox_right b"
  "bbox_zoom (withZoom b z) = z" "bbox_except (withZoom b z) = None"
  by (simp_all add: withZoom_def bbox.extend_def bboxWithZoom.fields_def)

lemma withExcept_sel [simp]:
  "bbox_top (withExcept b z ex) = bbox_top b" "bbox_bottom (withExcept b z ex) = bbox_bottom b"
  "bbox_left (withExcept b z ex) = bbox_left b" "bbox_right (withExcept b z ex) = bbox_right b"
  "bbox_zoom (withExcept b z ex) = z" "bbox_except (withExcept b z ex) = Some ex"
  by (simp_all add: withExcept_def bbox.extend_def bboxWithZoom.fields_def)

lemma holds_plain:
  "holds (makeBboxCondition (Some (withZoom b z))) p \<longleftrightarrow>
     bbox_bottom b \<le> lat p \<and> lat p \<le> bbox_top b \<and>
     (if bbox_right b < bbox_left b then bbox_left b \<le> lon p \<or> lon p \<le> bbox_right b
      else bbox_left b \<le> lon p \<and> lon p \<le> bbox_right b)"
  by (auto simp add: holds_makeBboxCondition)

lemma holds_except:
  "holds (makeBboxCondition (Some (withExcept b z ex))) p \<longleftrightarrow>
     holds (makeBboxCondition (Some (withZoom b z))) p \<and>
     \<not> holds (makeBboxCondition (Some (withZoom ex z'))) p"
  by (auto simp add: holds_makeBboxCondition)

lemma inBbox_holds: "inBbox b (lat p) (lon p) \<Longrightarrow> holds (makeBboxCondition (Some (withZoom b z))) p"
  by (auto simp add: holds_plain inBbox_def split: if_splits)

lemma holds_inBbox:
  "- 180 \<le> lon p \<Longrightarrow> lon p \<le> 180 \<Longrightarrow>
   holds (makeBboxCondition (Some (withZoom b z))) p \<longleftrightarrow> inBbox b (lat p) (lon p)"
  by (auto simp add: holds_plain inBbox_def split: if_splits)

text \<open>
  C3. A bbox with \<^verbatim>\<open>right < left\<close> matches a point exactly when the point's latitude lies
  in \<^verbatim>\<open>[bottom, top]\<close> and its longitude is at least \<^verbatim>\<open>left\<close> or at most \<^verbatim>\<open>right\<close>; for a
  longitude within \<^verbatim>\<open>[-180, 180]\<close> that is the union of \<^verbatim>\<open>[left, 180]\<close> and
  \<^verbatim>\<open>[-180, right]\<close>. With \<^verbatim>\<open>left = 170\<close> and \<^verbatim>\<open>right = -170\<close> a point at longitude 179 or
  -179 inside the latitude band is matched and a point at longitude 0 is not.
\<close>

theorem antimeridian_bbox_matches:
  assumes "bbox_right b < bbox_left b"
  shows "(holds (makeBboxCondition (Some (withZoom b z))) p \<longleftrightarrow>
            bbox_bottom b \<le> lat p \<and> lat p \<le> bbox_top b \<and>
            (bbox_left b \<le> lon p \<or> lon p \<le> bbox_right b))
       \<and> (- 180 \<le> lon p \<and> lon p \<le> 180 \<longrightarrow>
            (holds (makeBboxCondition (Some (withZoom b z))) p \<longleftrightarrow> inBbox b (lat p) (lon p)))
       \<and> (bbox_left b = 170 \<and> bbox_right b = - 170 \<longrightarrow>
            (lon p = 0 \<longrightarrow> \<not> holds (makeBboxCondition (Some (withZoom b z))) p) \<and>
            (bbox_bottom b \<le> lat p \<and> lat p \<le> bbox_top b \<longrightarrow>
               (lon p = 179 \<longrightarrow> holds (makeBboxCondition (Some (withZoom b z))) p) \<and>
               (lon p = - 179 \<longrightarrow> holds (makeBboxCondition (Some (withZoom b z))) p)))"
  using assms by (auto simp add: holds_plain inBbox_def)

theorem antimeridian_bbox_matches_witness:
  "bbox_right pacific_bbox < bbox_left pacific_bbox
   \<and> holds (makeBboxCondition (Some (withZoom pacific_bbox 5))) (scenario_point 1 0 179 1)
   \<and> holds (makeBboxCondition (Some (withZoom pacific_bbox 5))) (scenario_point 2 0 (- 179) 1)
   \<and> \<not> holds (makeBboxCondition (Some (withZoom pacific_bbox 5))) (scenario_point 4 0 0 1)
   \<and> inBbox pacific_bbox 0 179 \<and> inBbox pacific_bbox 0 (- 179) \<and> \<not> inBbox pacific_bbox 0 0"
proof -
  have w: "bbox_right pacific_bbox < bbox_left pacific_bbox"
    by (simp add: pacific_bbox_def)
  show ?thesis
    using w antimeridian_bbox_matches [OF w, of 5 "scenario_point 1 0 179 1"]
      antimeridian_bbox_matches [OF w, of 5 "scenario_point 2 0 (- 179) 1"]
      antimeridian_bbox_matches [OF w, of 5 "scenario_point 4 0 0 1"]
    by (simp add: pacific_bbox_def scenario_point_def inBbox_def)
qed

section \<open>Properties of the single-line query\<close>

lemma holds_bboxWhere:
  "holds (bboxWhere (Some b)) p \<longleftrightarrow> holds (makeBboxCondition (Some b)) p \<and> zoom p \<le> bbox_zoom b"
  by (simp add: bboxWhere_def attr_def)

lemma set_getLinePoints:
  "set (getLinePoints table lid w) = {p \<in> set table. lineId p = lid \<and> holds w p}"
  by (auto simp add: getLinePoints_def)

lemma set_getLinePointsByBbox:
  "set (getLinePointsByBbox table lid b) = idx ` set (getLinePoints table lid (bboxWhere b))"
  by (simp add: getLinePointsByBbox_def)

lemma getLinePoints_mono:
  assumes "\<And>p. p \<in> set table \<Longrightarrow> holds w1 p \<Longrightarrow> holds w2 p"
  shows "set (getLinePoints table lid w1) \<subseteq> set (getLinePoints table lid w2)"
  using assms by (auto simp add: set_getLinePoints)

lemma contained_holds:
  assumes h: "(\<forall>p. holds (makeBboxCondition (Some (withZoom B1 z))) p \<longrightarrow>
          holds (makeBboxCondition (Some (withZoom B2 z))) p)
     \<or> ((\<forall>la lo. - 180 \<le> lo \<and> lo \<le> 180 \<and> inBbox B1 la lo \<longrightarrow> inBbox B2 la lo)
         \<and> (\<forall>p \<in> set table. validPos p))"
    and p: "p \<in> set table" "holds (makeBboxCondition (Some (withZoom B1 z))) p"
  shows "holds (makeBboxCondition (Some (withZoom B2 z))) p"
  using h
proof
  assume "\<forall>p. holds (makeBboxCondition (Some (withZoom B1 z))) p \<longrightarrow>
        holds (makeBboxCondition (Some (withZoom B2 z))) p"
  with p show ?thesis by blast
next
  assume a: "(\<forall>la lo. - 180 \<le> lo \<and> lo \<le> 180 \<and> inBbox B1 la lo \<longrightarrow> inBbox B2 la lo)
       \<and> (\<forall>p \<in> set table. validPos p)"
  with p have v: "- 180 \<le> lon p" "lon p \<le> 180" by (auto simp add: validPos_def)
  with p have "inBbox B1 (lat p) (lon p)" by (simp add: holds_inBbox)
  with a v have "inBbox B2 (lat p) (lon p)" by blast
  then show ?thesis by (rule inBbox_holds)
qed

lemma contained_rows:
  assumes "(\<forall>p. holds (makeBboxCondition (Some (withZoom B1 z))) p \<longrightarrow>
          holds (makeBboxCondition (Some (withZoom B2 z))) p)
     \<or> ((\<forall>la lo. - 180 \<le> lo \<and> lo \<le> 180 \<and> inBbox B1 la lo \<longrightarrow> inBbox B2 la lo)
         \<and> (\<forall>p \<in> set table. validPos p))"
  shows "set (getLinePoints table lid (bboxWhere (Some (withZoom B1 z))))
         \<subseteq> set (getLinePoints table lid (bboxWhere (Some (withZoom B2 z))))"
  by (rule getLinePoints_mono) (simp add: holds_bboxWhere contained_holds [OF assms])
lemma getLinePointsByBbox_exact:
  "getLinePointsByBbox table lid (Some (withZoom B Z)) =
     map idx (sort_key idx (filter
       (\<lambda>p. lineId p = lid \<and> zoom p \<le> Z \<and> holds (makeBboxCondition (Some (withZoom B Z))) p) table))"
  by (simp add: getLinePointsByBbox_def getLinePoints_def holds_bboxWhere conj_commute)

lemma getLinePointsByBbox_sorted: "sorted (getLinePointsByBbox table lid b)"
  by (simp add: getLinePointsByBbox_def getLinePoints_def)

lemma pacific_contained:
  "\<forall>la lo. - 180 \<le> lo \<and> lo \<le> 180 \<and> inBbox pacific_inner_bbox la lo \<longrightarrow> inBbox pacific_bbox la lo"
  by (auto simp add: inBbox_def pacific_bbox_def pacific_inner_bbox_def)

lemma pacific_valid: "\<forall>p \<in> set pacific_table. validPos p"
  by (simp add: pacific_table_def scenario_point_def validPos_def)

lemma pacific_queries:
  "getLinePointsByBbox pacific_table 1 (Some (withZoom pacific_inner_bbox 5)) = [1, 2]"
  "getLinePointsByBbox pacific_table 1 (Some (withZoom pacific_bbox 5)) = [0, 1, 2, 3]"
  by (simp_all add: getLinePointsByBbox_exact holds_plain pacific_table_def scenario_point_def
      pacific_bbox_def pacific_inner_bbox_def)

text \<open>
  C4. Point queries are monotone in the bbox: when \<open>B1\<close> is contained in \<open>B2\<close>, the rows,
  and so the indexes, returned for \<open>B1\<close> at a zoom are among those returned for \<open>B2\<close> at
  that zoom. Containment is either containment of what the two conditions match, or
  containment of the two regions (unions of longitude intervals for a wrapping bbox) for
  stored positions within the validation bounds.
\<close>

theorem bbox_query_monotone:
  "((\<forall>p. holds (makeBboxCondition (Some (withZoom B1 z))) p \<longrightarrow>
          holds (makeBboxCondition (Some (withZoom B2 z))) p)
     \<or> ((\<forall>la lo. - 180 \<le> lo \<and> lo \<le> 180 \<and> inBbox B1 la lo \<longrightarrow> inBbox B2 la lo)
         \<and> (\<forall>p \<in> set table. validPos p)))
   \<Longrightarrow> set (getLinePoints table lid (bboxWhere (Some (withZoom B1 z))))
         \<subseteq> set (getLinePoints table lid (bboxWhere (Some (withZoom B2 z))))
     \<and> set (getLinePointsByBbox table lid (Some (withZoom B1 z)))
         \<subseteq> set (getLinePointsByBbox table lid (Some (withZoom B2 z)))"
  using contained_rows [of B1 z B2 table lid] by (auto simp add: set_getLinePointsByBbox)

theorem bbox_query_monotone_witness:
  "set (getLinePointsByBbox pacific_table 1 (Some (withZoom pacific_inner_bbox 5)))
        \<subseteq> set (getLinePointsByBbox pacific_table 1 (Some (withZoom pacific_bbox 5)))
   \<and> getLinePointsByBbox pacific_table 1 (Some (withZoom pacific_inner_bbox 5)) = [1, 2]
   \<and> getLinePointsByBbox pacific_table 1 (Some (withZoom pacific_bbox 5)) = [0, 1, 2, 3]"
  using bbox_query_monotone [of pacific_inner_bbox 5 pacific_bbox pacific_table 1]
    pacific_contained pacific_valid pacific_queries
  by blast

text \<open>
  C1. For a line, a zoom and bboxes \<open>old\<close> contained in \<open>new\<close>: what the query over \<open>new\<close>
  with \<^verbatim>\<open>except = old\<close> returns, together with what the query over \<open>old\<close> returns, is what
  the query over \<open>new\<close> without \<^verbatim>\<open>except\<close> returns, for the selected rows and for the
  returned indexes; and no row selected by the \<^verbatim>\<open>except\<close> query lies inside \<open>old\<close>.
\<close>

theorem except_query_complements:
  "(((\<forall>p. holds (makeBboxCondition (Some (withZoom old z))) p \<longrightarrow>
          holds (makeBboxCondition (Some (withZoom new z))) p)
     \<or> ((\<forall>la lo. - 180 \<le> lo \<and> lo \<le> 180 \<and> inBbox old la lo \<longrightarrow> inBbox new la lo)
         \<and> (\<forall>p \<in> set table. validPos p)))
    \<longrightarrow> set (getLinePoints table lid (bboxWhere (Some (withExcept new z old))))
           \<union> set (getLinePoints table lid (bboxWhere (Some (withZoom old z))))
         = set (getLinePoints table lid (bboxWhere (Some (withZoom new z))))
      \<and> set (getLinePointsByBbox table lid (Some (withExcept new z old)))
           \<union> set (getLinePointsByBbox table lid (Some (withZoom old z)))
         = set (getLinePointsByBbox table lid (Some (withZoom new z))))
   \<and> (\<forall>p \<in> set (getLinePoints table lid (bboxWhere (Some (withExcept new z old)))).
         \<not> holds (makeBboxCondition (Some (withZoom old z))) p \<and> \<not> inBbox old (lat p) (lon p))
   \<and> getLinePointsByBbox table lid (Some (withExcept new z old))
       = map idx (getLinePoints table lid (bboxWhere (Some (withExcept new z old))))"
proof (intro conjI impI ballI)
  fix p assume "p \<in> set (getLinePoints table lid (bboxWhere (Some (withExcept new z old))))"
  then have "holds (makeBboxCondition (Some (withExcept new z old))) p"
    by (simp add: set_getLinePoints holds_bboxWhere)
  then show n: "\<not> holds (makeBboxCondition (Some (withZoom old z))) p"
    by (simp add: holds_except [where z' = z])
  then show "\<not> inBbox old (lat p) (lon p)"
    using inBbox_holds by blast
next
  show "getLinePointsByBbox table lid (Some (withExcept new z old))
       = map idx (getLinePoints table lid (bboxWhere (Some (withExcept new z old))))"
    by (simp add: getLinePointsByBbox_def)
next
  assume h: "(\<forall>p. holds (makeBboxCondition (Some (withZoom old z))) p \<longrightarrow>
          holds (makeBboxCondition (Some (withZoom new z))) p)
     \<or> ((\<forall>la lo. - 180 \<le> lo \<and> lo \<le> 180 \<and> inBbox old la lo \<longrightarrow> inBbox new la lo)
         \<and> (\<forall>p \<in> set table. validPos p))"
  have sub: "set (getLinePoints table lid (bboxWhere (Some (withZoom old z))))
         \<subseteq> set (getLinePoints table lid (bboxWhere (Some (withZoom new z))))"
    using contained_rows [OF h] .
  show rows: "set (getLinePoints table lid (bboxWhere (Some (withExcept new z old))))
           \<union> set (getLinePoints table lid (bboxWhere (Some (withZoom old z))))
         = set (getLinePoints table lid (bboxWhere (Some (withZoom new z))))"
    using sub by (auto simp add: set_getLinePoints holds_bboxWhere holds_except [where z' = z])
  show "set (getLinePointsByBbox table lid (Some (withExcept new z old)))
           \<union> set (getLinePointsByBbox table lid (Some (withZoom old z)))
         = set (getLinePointsByBbox table lid (Some (withZoom new z)))"
    unfolding set_getLinePointsByBbox image_Un [symmetric] rows ..
qed

theorem except_query_complements_witness:
  "set (getLinePointsByBbox pacific_table 1 (Some (withExcept pacific_bbox 5 pacific_inner_bbox)))
        \<union> set (getLinePointsByBbox pacific_table 1 (Some (withZoom pacific_inner_bbox 5)))
      = set (getLinePointsByBbox pacific_table 1 (Some (withZoom pacific_bbox 5)))
   \<and> getLinePointsByBbox pacific_table 1 (Some (withExcept pacific_bbox 5 pacific_inner_bbox)) = [0, 3]
   \<and> list_all (\<lambda>p. \<not> inBbox pacific_inner_bbox (lat p) (lon p))
         (getLinePoints pacific_table 1 (bboxWhere (Some (withExcept pacific_bbox 5 pacific_inner_bbox))))"
proof -
  have e: "getLinePointsByBbox pacific_table 1 (Some (withExcept pacific_bbox 5 pacific_inner_bbox)) = [0, 3]"
    by (simp add: getLinePointsByBbox_def getLinePoints_def holds_bboxWhere
        holds_except [where z' = 5] holds_plain pacific_table_def scenario_point_def
        pacific_bbox_def pacific_inner_bbox_def)
  show ?thesis
    unfolding list_all_iff
    using except_query_complements [of pacific_inner_bbox 5 pacific_bbox pacific_table 1]
      pacific_contained pacific_valid e
    by blast
qed

section \<open>Properties of the pad query\<close>

lemma concat_batch: "0 < n \<Longrightarrow> concat (batch n xs) = xs"
proof (induction n xs rule: batch.induct)
  case (1 n xs)
  then show ?case by (subst batch.simps) simp
qed

lemma batch_small: "0 < n \<Longrightarrow> xs \<noteq> [] \<Longrightarrow> length xs \<le> n \<Longrightarrow> batch n xs = [xs]"
  by (subst batch.simps) (simp add: batch.simps)

lemma distinct_concat_map_sub:
  assumes "distinct (concat xss)"
    and "\<And>xs. xs \<in> set xss \<Longrightarrow> distinct (g xs) \<and> set (g xs) \<subseteq> set xs"
  shows "distinct (concat (map g xss))"
  using assms
proof (induction xss)
  case Nil
  then show ?case by simp
next
  case (Cons xs xss)
  then have "distinct (concat (map g xss))" by simp
  moreover have "distinct (g xs)" using Cons.prems(2) by simp
  moreover have "set (g xs) \<inter> set (concat (map g xss)) = {}"
  proof -
    have "set (g xs) \<subseteq> set xs" using Cons.prems(2) by simp
    moreover have "set (concat (map g xss)) \<subseteq> set (concat xss)"
      using Cons.prems(2) by auto
    moreover have "set xs \<inter> set (concat xss) = {}" using Cons.prems(1) by simp
    ultimately show ?thesis by blast
  qed
  ultimately show ?case by simp
qed

lemma set_groupBy_lineId:
  "(k, val) \<in> set (groupBy_lineId rows) \<longleftrightarrow>
     k \<in> lineId ` set rows \<and> val = filter (\<lambda>p. lineId p = k) rows"
  by (auto simp add: groupBy_lineId_def)

lemma keys_groupBy_lineId: "map fst (groupBy_lineId rows) = sort (remdups (map lineId rows))"
  by (simp add: groupBy_lineId_def comp_def)

lemma holds_pad_where:
  "holds (Sequelize_and [Obj [(Zoom, [Lte (real Z)]), (LineId, [In (map real lineIds)])], w]) p
     \<longleftrightarrow> zoom p \<le> Z \<and> lineId p \<in> set lineIds \<and> holds w p"
  by (auto simp add: attr_def)

lemma set_padGroups:
  assumes perm: "\<And>xs. mset (ro xs) = mset xs"
  shows "(k, tps) \<in> set (padGroups mkBbox ro table b lineIds) \<longleftrightarrow>
     k \<in> set lineIds \<and>
     (\<exists>p \<in> set table. lineId p = k \<and> zoom p \<le> bbox_zoom b \<and> holds (mkBbox (Some b)) p) \<and>
     tps = map trackPoint.truncate (filter (\<lambda>p. lineId p = k)
       (ro (filter (\<lambda>p. zoom p \<le> bbox_zoom b \<and> lineId p \<in> set lineIds \<and> holds (mkBbox (Some b)) p)
          table)))"
proof -
  let ?rows = "filter (\<lambda>p. zoom p \<le> bbox_zoom b \<and> lineId p \<in> set lineIds \<and> holds (mkBbox (Some b)) p) table"
  have s: "set (ro ?rows) = set ?rows"
    using perm [of ?rows] by (rule mset_eq_setD)
  have "(k, tps) \<in> set (padGroups mkBbox ro table b lineIds) \<longleftrightarrow>
      (\<exists>val. (k, val) \<in> set (groupBy_lineId (ro ?rows)) \<and> tps = map trackPoint.truncate val)"
    unfolding padGroups_def Let_def holds_pad_where by force
  also have "\<dots> \<longleftrightarrow> k \<in> lineId ` set (ro ?rows) \<and>
      tps = map trackPoint.truncate (filter (\<lambda>p. lineId p = k) (ro ?rows))"
    unfolding set_groupBy_lineId by blast
  also have "k \<in> lineId ` set (ro ?rows) \<longleftrightarrow>
      k \<in> set lineIds \<and>
      (\<exists>p \<in> set table. lineId p = k \<and> zoom p \<le> bbox_zoom b \<and> holds (mkBbox (Some b)) p)"
    unfolding s by auto
  finally show ?thesis by blast
qed

lemma mset_group:
  assumes perm: "\<And>xs. mset (ro xs) = mset xs" and k: "k \<in> set lineIds"
  shows "mset (map trackPoint.truncate (filter (\<lambda>p. lineId p = k)
       (ro (filter (\<lambda>p. zoom p \<le> Z \<and> lineId p \<in> set lineIds \<and> holds w p) table))))
     = image_mset trackPoint.truncate
         (filter_mset (\<lambda>p. lineId p = k \<and> zoom p \<le> Z \<and> holds w p) (mset table))"
proof -
  have "filter_mset (\<lambda>p. lineId p = k)
          (filter_mset (\<lambda>p. zoom p \<le> Z \<and> lineId p \<in> set lineIds \<and> holds w p) (mset table))
      = filter_mset (\<lambda>p. lineId p = k \<and> zoom p \<le> Z \<and> holds w p) (mset table)"
    using k by (auto simp add: filter_filter_mset intro: filter_mset_cong)
  then show ?thesis
    by (simp add: perm)
qed

lemma keys_padGroups:
  assumes perm: "\<And>xs. mset (ro xs) = mset xs"
  shows "distinct (map fst (padGroups mkBbox ro table b lineIds))"
    and "fst ` set (padGroups mkBbox ro table b lineIds) \<subseteq> set lineIds"
proof -
  show "distinct (map fst (padGroups mkBbox ro table b lineIds))"
    by (simp add: padGroups_def Let_def comp_def case_prod_unfold keys_groupBy_lineId [unfolded comp_def]
        groupBy_lineId_def)
  show "fst ` set (padGroups mkBbox ro table b lineIds) \<subseteq> set lineIds"
    using set_padGroups [OF perm] by fastforce
qed

lemma pad_line_ids:
  assumes perm: "\<And>xs. mset (lo xs) = mset (xs :: lineRow list)"
  shows "set (map line_id (lo (filter (\<lambda>l. line_padId l = pid) lineTable)))
      = line_id ` {l \<in> set lineTable. line_padId l = pid}"
    and "distinct (map line_id lineTable) \<Longrightarrow>
      distinct (map line_id (lo (filter (\<lambda>l. line_padId l = pid) lineTable)))"
proof -
  let ?ls = "filter (\<lambda>l. line_padId l = pid) lineTable"
  have "set (lo ?ls) = set ?ls" using perm [of ?ls] by (rule mset_eq_setD)
  then show "set (map line_id (lo ?ls)) = line_id ` {l \<in> set lineTable. line_padId l = pid}"
    by auto
  assume "distinct (map line_id lineTable)"
  then have d: "distinct (map line_id ?ls)" by (rule distinct_map_filter)
  have "mset (map line_id (lo ?ls)) = mset (map line_id ?ls)" by (simp add: perm)
  then show "distinct (map line_id (lo ?ls))"
    using d by (metis mset_eq_imp_distinct_iff)
qed

lemma set_getLinePointsForPad:
  assumes ro: "\<And>xs. mset (ro xs) = mset xs" and lo: "\<And>xs. mset (lo xs) = mset (xs :: lineRow list)"
  shows "(k, tps) \<in> set (getLinePointsForPad mkBbox lo ro lineTable table pid b) \<Longrightarrow>
       k \<in> line_id ` {l \<in> set lineTable. line_padId l = pid} \<and> tps \<noteq> [] \<and>
       mset tps = image_mset trackPoint.truncate
         (filter_mset (\<lambda>p. lineId p = k \<and> zoom p \<le> bbox_zoom b \<and> holds (mkBbox (Some b)) p) (mset table))"
    and "k \<in> line_id ` {l \<in> set lineTable. line_padId l = pid} \<Longrightarrow>
       \<exists>p \<in> set table. lineId p = k \<and> zoom p \<le> bbox_zoom b \<and> holds (mkBbox (Some b)) p \<Longrightarrow>
       k \<in> fst ` set (getLinePointsForPad mkBbox lo ro lineTable table pid b)"
proof -
  let ?ids = "map line_id (lo (filter (\<lambda>l. line_padId l = pid) lineTable))"
  have ids: "set ?ids = line_id ` {l \<in> set lineTable. line_padId l = pid}"
    by (rule pad_line_ids [OF lo])
  have cover: "(\<exists>ys \<in> set (batch 50000 ?ids). k \<in> set ys) \<longleftrightarrow> k \<in> set ?ids" for k
  proof -
    have "set ?ids = set (concat (batch 50000 ?ids))" by (simp add: concat_batch)
    then show ?thesis by auto
  qed
  {
    assume "(k, tps) \<in> set (getLinePointsForPad mkBbox lo ro lineTable table pid b)"
    then obtain ys where ys: "ys \<in> set (batch 50000 ?ids)"
      and g: "(k, tps) \<in> set (padGroups mkBbox ro table b ys)"
      by (auto simp add: getLinePointsForPad_def)
    from g have k: "k \<in> set ys"
      and ex: "\<exists>p \<in> set table. lineId p = k \<and> zoom p \<le> bbox_zoom b \<and> holds (mkBbox (Some b)) p"
      and t: "tps = map trackPoint.truncate (filter (\<lambda>p. lineId p = k)
         (ro (filter (\<lambda>p. zoom p \<le> bbox_zoom b \<and> lineId p \<in> set ys \<and> holds (mkBbox (Some b)) p) table)))"
      unfolding set_padGroups [OF ro] by auto
    have m: "mset tps = image_mset trackPoint.truncate
         (filter_mset (\<lambda>p. lineId p = k \<and> zoom p \<le> bbox_zoom b \<and> holds (mkBbox (Some b)) p) (mset table))"
      unfolding t by (rule mset_group [OF ro k])
    from ex obtain p where "p \<in># filter_mset (\<lambda>p. lineId p = k \<and> zoom p \<le> bbox_zoom b \<and> holds (mkBbox (Some b)) p) (mset table)"
      by auto
    then have "mset tps \<noteq> {#}" unfolding m by auto
    then have "tps \<noteq> []" by auto
    moreover from ys k cover have "k \<in> set ?ids" by blast
    ultimately show "k \<in> line_id ` {l \<in> set lineTable. line_padId l = pid} \<and> tps \<noteq> [] \<and>
       mset tps = image_mset trackPoint.truncate
         (filter_mset (\<lambda>p. lineId p = k \<and> zoom p \<le> bbox_zoom b \<and> holds (mkBbox (Some b)) p) (mset table))"
      using m ids by simp
  }
  {
    assume "k \<in> line_id ` {l \<in> set lineTable. line_padId l = pid}"
      and ex: "\<exists>p \<in> set table. lineId p = k \<and> zoom p \<le> bbox_zoom b \<and> holds (mkBbox (Some b)) p"
    then have "k \<in> set ?ids" using ids by simp
    then obtain ys where ys: "ys \<in> set (batch 50000 ?ids)" and k: "k \<in> set ys"
      using cover by blast
    let ?tps = "map trackPoint.truncate (filter (\<lambda>p. lineId p = k)
         (ro (filter (\<lambda>p. zoom p \<le> bbox_zoom b \<and> lineId p \<in> set ys \<and> holds (mkBbox (Some b)) p) table)))"
    have "(k, ?tps) \<in> set (padGroups mkBbox ro table b ys)"
      unfolding set_padGroups [OF ro] using k ex by simp
    with ys have "(k, ?tps) \<in> set (getLinePointsForPad mkBbox lo ro lineTable table pid b)"
      by (auto simp add: getLinePointsForPad_def)
    then show "k \<in> fst ` set (getLinePointsForPad mkBbox lo ro lineTable table pid b)"
      by force
  }
qed

lemma distinct_getLinePointsForPad:
  assumes ro: "\<And>xs. mset (ro xs) = mset xs" and lo: "\<And>xs. mset (lo xs) = mset (xs :: lineRow list)"
    and d: "distinct (map line_id lineTable)"
  shows "distinct (map fst (getLinePointsForPad mkBbox lo ro lineTable table pid b))"
proof -
  let ?ids = "map line_id (lo (filter (\<lambda>l. line_padId l = pid) lineTable))"
  have "distinct (concat (batch 50000 ?ids))"
    using pad_line_ids(2) [OF lo d] by (simp add: concat_batch)
  then have "distinct (concat (map (\<lambda>ys. map fst (padGroups mkBbox ro table b ys)) (batch 50000 ?ids)))"
    by (rule distinct_concat_map_sub) (simp add: keys_padGroups [OF ro])
  then show ?thesis
    unfolding getLinePointsForPad_def by (simp add: map_concat comp_def)
qed

lemma single_key:
  assumes "distinct (map fst xs)" and "\<And>x. x \<in> set xs \<Longrightarrow> fst x = a" and "a \<in> fst ` set xs"
  shows "\<exists>v. xs = [(a, v)]"
proof (cases xs)
  case Nil
  with assms(3) show ?thesis by simp
next
  case (Cons x ys)
  have "ys = []"
  proof (cases ys)
    case Nil
    then show ?thesis .
  next
    case (Cons y zs)
    with \<open>xs = x # ys\<close> assms(2) have "fst x = a" "fst y = a" by auto
    with Cons \<open>xs = x # ys\<close> assms(1) show ?thesis by simp
  qed
  moreover have "fst x = a" using Cons assms(2) by simp
  ultimately show ?thesis using Cons by (cases x) simp
qed

lemma inBbox_withZoom: "inBbox (withZoom b z) la lo = inBbox b la lo"
  by (simp add: inBbox_def)

lemma mset_indexOrder: "mset (indexOrder xs) = mset xs"
  by (simp add: indexOrder_def)

lemma scenario_valid: "\<forall>p \<in> set scenario_table. validPos p"
  by (simp add: scenario_table_def scenario_point_def validPos_def)

lemma scenario_single:
  "getLinePointsByBbox scenario_table 1 (Some (withZoom scenario_bbox 5)) = [0, 1]"
  "getLinePointsByBbox scenario_table 1 (Some (withZoom scenario_bbox 15)) = [0, 1, 2]"
  by (simp_all add: getLinePointsByBbox_exact holds_plain scenario_table_def scenario_point_def
      scenario_bbox_def)

lemma scenario_inside: "\<forall>p \<in> set scenario_table. inBbox scenario_bbox (lat p) (lon p)"
  by (simp add: scenario_table_def scenario_point_def scenario_bbox_def inBbox_def)

lemma idx_truncate: "idx (trackPoint.truncate p) = idx p"
  by (simp add: trackPoint.truncate_def)

lemma scenario_pad:
  assumes ro: "\<And>xs. mset (ro xs) = mset xs" and lo: "\<And>xs. mset (lo xs) = mset (xs :: lineRow list)"
    and box: "\<forall>p \<in> set scenario_table.
        holds (mkBbox (Some (withZoom scenario_bbox Z))) p \<longleftrightarrow> inBbox scenario_bbox (lat p) (lon p)"
    and Z: "1 \<le> Z"
  shows "map (\<lambda>(k, tps). (k, mset (map idx tps)))
       (getLinePointsForPad mkBbox lo ro scenario_lines scenario_table ''P'' (withZoom scenario_bbox Z))
     = [(1, image_mset idx (filter_mset (\<lambda>p. zoom p \<le> Z) (mset scenario_table)))]"
proof -
  let ?r = "getLinePointsForPad mkBbox lo ro scenario_lines scenario_table ''P'' (withZoom scenario_bbox Z)"
  have lines: "line_id ` {l \<in> set scenario_lines. line_padId l = ''P''} = {1}"
    by (auto simp add: scenario_lines_def)
  have sel: "filter_mset (\<lambda>p. lineId p = 1 \<and> zoom p \<le> bbox_zoom (withZoom scenario_bbox Z) \<and>
        holds (mkBbox (Some (withZoom scenario_bbox Z))) p) (mset scenario_table)
      = filter_mset (\<lambda>p. zoom p \<le> Z) (mset scenario_table)"
    using box scenario_inside
    by (intro filter_mset_cong refl) (auto simp add: scenario_table_def scenario_point_def)
  have d: "distinct (map fst ?r)"
    by (rule distinct_getLinePointsForPad [OF ro lo]) (simp add: scenario_lines_def)
  have one: "fst x = 1" if "x \<in> set ?r" for x
  proof -
    from that have "(fst x, snd x) \<in> set ?r" by simp
    then have "fst x \<in> line_id ` {l \<in> set scenario_lines. line_padId l = ''P''}"
      using set_getLinePointsForPad(1) [OF ro lo] by blast
    then show ?thesis unfolding lines by simp
  qed
  have p0: "scenario_point 0 0 0 1 \<in> set scenario_table" by (simp add: scenario_table_def)
  have h0: "holds (mkBbox (Some (withZoom scenario_bbox Z))) (scenario_point 0 0 0 1)"
    using box scenario_inside p0 by blast
  have "lineId (scenario_point 0 0 0 1) = 1 \<and>
      zoom (scenario_point 0 0 0 1) \<le> bbox_zoom (withZoom scenario_bbox Z)"
    using Z by (simp add: scenario_point_def)
  with p0 h0 have ex: "\<exists>p \<in> set scenario_table. lineId p = 1 \<and>
        zoom p \<le> bbox_zoom (withZoom scenario_bbox Z) \<and>
        holds (mkBbox (Some (withZoom scenario_bbox Z))) p"
    by blast
  have "1 \<in> fst ` set ?r"
  proof (rule set_getLinePointsForPad(2) [OF ro lo])
    show "1 \<in> line_id ` {l \<in> set scenario_lines. line_padId l = ''P''}"
      unfolding lines by simp
    show "\<exists>p \<in> set scenario_table. lineId p = 1 \<and>
        zoom p \<le> bbox_zoom (withZoom scenario_bbox Z) \<and>
        holds (mkBbox (Some (withZoom scenario_bbox Z))) p"
      by (rule ex)
  qed
  with d one obtain v where r: "?r = [(1, v)]"
    using single_key [of ?r 1] by blast
  then have "(1, v) \<in> set ?r" by simp
  then have "mset v = image_mset trackPoint.truncate
      (filter_mset (\<lambda>p. lineId p = 1 \<and> zoom p \<le> bbox_zoom (withZoom scenario_bbox Z) \<and>
        holds (mkBbox (Some (withZoom scenario_bbox Z))) p) (mset scenario_table))"
    using set_getLinePointsForPad(1) [OF ro lo] by blast
  then have "mset v = image_mset trackPoint.truncate (filter_mset (\<lambda>p. zoom p \<le> Z) (mset scenario_table))"
    unfolding sel .
  then have "image_mset idx (mset v)
      = image_mset idx (image_mset trackPoint.truncate (filter_mset (\<lambda>p. zoom p \<le> Z) (mset scenario_table)))"
    by simp
  then have "mset (map idx v) = image_mset idx (filter_mset (\<lambda>p. zoom p \<le> Z) (mset scenario_table))"
    by (simp add: multiset.map_comp comp_def idx_truncate)
  with r show ?thesis by simp
qed

lemma scenario_zoom:
  "image_mset idx (filter_mset (\<lambda>p. zoom p \<le> 5) (mset scenario_table)) = {#0, 1#}"
  "image_mset idx (filter_mset (\<lambda>p. zoom p \<le> 15) (mset scenario_table)) = {#0, 1, 2#}"
  by (simp_all add: scenario_table_def scenario_point_def)

text \<open>
  C2, as stated, fails for the pad query: with the three points of the scenario stored in
  the order \<^verbatim>\<open>idx2, idx1, idx0\<close> and a database that reads the rows through the index on
  \<^verbatim>\<open>(lineId, zoom)\<close>, the group of the line holds the points in the order
  \<^verbatim>\<open>idx1, idx0, idx2\<close>, which is not ascending by \<^verbatim>\<open>idx\<close>. The repository's own
  \<^verbatim>\<open>_makeBboxCondition\<close> stands for the builder of \<^verbatim>\<open>helpers.js\<close>.
\<close>

theorem pad_query_unordered:
  "map (\<lambda>(k, tps). (k, map idx tps))
     (getLinePointsForPad makeBboxCondition (\<lambda>ls. ls) indexOrder scenario_lines (rev scenario_table)
        ''P'' (withZoom scenario_bbox 15))
   = [(1, [1, 0, 2])]
   \<and> \<not> sorted (map idx (snd (hd
         (getLinePointsForPad makeBboxCondition (\<lambda>ls. ls) indexOrder scenario_lines
            (rev scenario_table) ''P'' (withZoom scenario_bbox 15)))))"
  by (simp add: getLinePointsForPad_def scenario_lines_def batch_small padGroups_def indexOrder_def
      groupBy_lineId_def attr_def holds_plain scenario_table_def scenario_point_def
      scenario_bbox_def trackPoint.truncate_def)

text \<open>
  C2, amended. A single-line query with bbox and zoom \<open>Z\<close> returns the indexes of exactly
  the stored points of the line with zoom at most \<open>Z\<close> inside the bbox, in ascending order
  of \<^verbatim>\<open>idx\<close>. For a pad query, whatever order the database returns the rows in and for a
  condition builder that matches the stored points inside the bbox: every group belongs
  to a line of the pad and holds, as a multiset, exactly the stored points of that line
  with zoom at most \<open>Z\<close> inside the bbox, at least one; every line of the pad with such a
  point has a group; and with distinct line ids no line has two groups. Nothing is said
  of the order within a group. In the scenario the queries at zoom 5 return
  \<^verbatim>\<open>idx0, idx1\<close> and the queries at zoom 15 return all three points.
\<close>

theorem point_queries_exact:
  "getLinePointsByBbox table lid (Some (withZoom B Z)) =
     map idx (sort_key idx (filter
       (\<lambda>p. lineId p = lid \<and> zoom p \<le> Z \<and> holds (makeBboxCondition (Some (withZoom B Z))) p) table))
   \<and> sorted (getLinePointsByBbox table lid (Some (withZoom B Z)))
   \<and> ((\<forall>p \<in> set table. validPos p) \<longrightarrow>
        getLinePointsByBbox table lid (Some (withZoom B Z)) =
          map idx (sort_key idx (filter
            (\<lambda>p. lineId p = lid \<and> zoom p \<le> Z \<and> inBbox B (lat p) (lon p)) table)))
   \<and> ((\<forall>xs. mset (rowOrder xs) = mset xs) \<and> (\<forall>xs. mset (lineOrder xs) = mset xs) \<and>
       (\<forall>p \<in> set table. holds (mkBbox (Some b)) p \<longleftrightarrow> inBbox b (lat p) (lon p)) \<longrightarrow>
        (\<forall>(k, tps) \<in> set (getLinePointsForPad mkBbox lineOrder rowOrder lineTable table pid b).
           k \<in> line_id ` {l \<in> set lineTable. line_padId l = pid} \<and> tps \<noteq> [] \<and>
           mset tps = image_mset trackPoint.truncate
             (filter_mset (\<lambda>p. lineId p = k \<and> zoom p \<le> bbox_zoom b \<and> inBbox b (lat p) (lon p))
                (mset table)))
        \<and> (\<forall>k \<in> line_id ` {l \<in> set lineTable. line_padId l = pid}.
             (\<exists>p \<in> set table. lineId p = k \<and> zoom p \<le> bbox_zoom b \<and> inBbox b (lat p) (lon p)) \<longrightarrow>
             k \<in> fst ` set (getLinePointsForPad mkBbox lineOrder rowOrder lineTable table pid b))
        \<and> (distinct (map line_id lineTable) \<longrightarrow>
             distinct (map fst (getLinePointsForPad mkBbox lineOrder rowOrder lineTable table pid b))))
   \<and> getLinePointsByBbox scenario_table 1 (Some (withZoom scenario_bbox 5)) = [0, 1]
   \<and> getLinePointsByBbox scenario_table 1 (Some (withZoom scenario_bbox 15)) = [0, 1, 2]
   \<and> ((\<forall>xs. mset (rowOrder xs) = mset xs) \<and> (\<forall>xs. mset (lineOrder xs) = mset xs) \<and>
       (\<forall>p \<in> set scenario_table. holds (mkBbox (Some (withZoom scenario_bbox 5))) p
            \<longleftrightarrow> inBbox scenario_bbox (lat p) (lon p)) \<longrightarrow>
        map (\<lambda>(k, tps). (k, mset (map idx tps)))
          (getLinePointsForPad mkBbox lineOrder rowOrder scenario_lines scenario_table ''P''
             (withZoom scenario_bbox 5)) = [(1, {#0, 1#})])
   \<and> ((\<forall>xs. mset (rowOrder xs) = mset xs) \<and> (\<forall>xs. mset (lineOrder xs) = mset xs) \<and>
       (\<forall>p \<in> set scenario_table. holds (mkBbox (Some (withZoom scenario_bbox 15))) p
            \<longleftrightarrow> inBbox scenario_bbox (lat p) (lon p)) \<longrightarrow>
        map (\<lambda>(k, tps). (k, mset (map idx tps)))
          (getLinePointsForPad mkBbox lineOrder rowOrder scenario_lines scenario_table ''P''
             (withZoom scenario_bbox 15)) = [(1, {#0, 1, 2#})])"
proof (intro conjI)
  show "getLinePointsByBbox table lid (Some (withZoom B Z)) =
     map idx (sort_key idx (filter
       (\<lambda>p. lineId p = lid \<and> zoom p \<le> Z \<and> holds (makeBboxCondition (Some (withZoom B Z))) p) table))"
    by (rule getLinePointsByBbox_exact)
  show "sorted (getLinePointsByBbox table lid (Some (withZoom B Z)))"
    by (rule getLinePointsByBbox_sorted)
  show "(\<forall>p \<in> set table. validPos p) \<longrightarrow>
        getLinePointsByBbox table lid (Some (withZoom B Z)) =
          map idx (sort_key idx (filter
            (\<lambda>p. lineId p = lid \<and> zoom p \<le> Z \<and> inBbox B (lat p) (lon p)) table))"
  proof
    assume v: "\<forall>p \<in> set table. validPos p"
    have "filter (\<lambda>p. lineId p = lid \<and> zoom p \<le> Z \<and> holds (makeBboxCondition (Some (withZoom B Z))) p) table
        = filter (\<lambda>p. lineId p = lid \<and> zoom p \<le> Z \<and> inBbox B (lat p) (lon p)) table"
      using v by (intro filter_cong refl) (simp add: validPos_def holds_inBbox)
    then show "getLinePointsByBbox table lid (Some (withZoom B Z)) =
          map idx (sort_key idx (filter
            (\<lambda>p. lineId p = lid \<and> zoom p \<le> Z \<and> inBbox B (lat p) (lon p)) table))"
      by (simp add: getLinePointsByBbox_exact)
  qed
  show "getLinePointsByBbox scenario_table 1 (Some (withZoom scenario_bbox 5)) = [0, 1]"
    by (rule scenario_single)
  show "getLinePointsByBbox scenario_table 1 (Some (withZoom scenario_bbox 15)) = [0, 1, 2]"
    by (rule scenario_single)
  show "(\<forall>xs. mset (rowOrder xs) = mset xs) \<and> (\<forall>xs. mset (lineOrder xs) = mset xs) \<and>
       (\<forall>p \<in> set scenario_table. holds (mkBbox (Some (withZoom scenario_bbox 5))) p
            \<longleftrightarrow> inBbox scenario_bbox (lat p) (lon p)) \<longrightarrow>
        map (\<lambda>(k, tps). (k, mset (map idx tps)))
          (getLinePointsForPad mkBbox lineOrder rowOrder scenario_lines scenario_table ''P''
             (withZoom scenario_bbox 5)) = [(1, {#0, 1#})]"
    using scenario_pad [of rowOrder lineOrder mkBbox 5] by (simp add: scenario_zoom)
  show "(\<forall>xs. mset (rowOrder xs) = mset xs) \<and> (\<forall>xs. mset (lineOrder xs) = mset xs) \<and>
       (\<forall>p \<in> set scenario_table. holds (mkBbox (Some (withZoom scenario_bbox 15))) p
            \<longleftrightarrow> inBbox scenario_bbox (lat p) (lon p)) \<longrightarrow>
        map (\<lambda>(k, tps). (k, mset (map idx tps)))
          (getLinePointsForPad mkBbox lineOrder rowOrder scenario_lines scenario_table ''P''
             (withZoom scenario_bbox 15)) = [(1, {#0, 1, 2#})]"
    using scenario_pad [of rowOrder lineOrder mkBbox 15] by (simp add: scenario_zoom)
  show "(\<forall>xs. mset (rowOrder xs) = mset xs) \<and> (\<forall>xs. mset (lineOrder xs) = mset xs) \<and>
       (\<forall>p \<in> set table. holds (mkBbox (Some b)) p \<longleftrightarrow> inBbox b (lat p) (lon p)) \<longrightarrow>
        (\<forall>(k, tps) \<in> set (getLinePointsForPad mkBbox lineOrder rowOrder lineTable table pid b).
           k \<in> line_id ` {l \<in> set lineTable. line_padId l = pid} \<and> tps \<noteq> [] \<and>
           mset tps = image_mset trackPoint.truncate
             (filter_mset (\<lambda>p. lineId p = k \<and> zoom p \<le> bbox_zoom b \<and> inBbox b (lat p) (lon p))
                (mset table)))
        \<and> (\<forall>k \<in> line_id ` {l \<in> set lineTable. line_padId l = pid}.
             (\<exists>p \<in> set table. lineId p = k \<and> zoom p \<le> bbox_zoom b \<and> inBbox b (lat p) (lon p)) \<longrightarrow>
             k \<in> fst ` set (getLinePointsForPad mkBbox lineOrder rowOrder lineTable table pid b))
        \<and> (distinct (map line_id lineTable) \<longrightarrow>
             distinct (map fst (getLinePointsForPad mkBbox lineOrder rowOrder lineTable table pid b)))"
  proof (intro impI, elim conjE)
    assume ro: "\<forall>xs. mset (rowOrder xs) = mset xs" and lo: "\<forall>xs. mset (lineOrder xs) = mset xs"
      and box: "\<forall>p \<in> set table. holds (mkBbox (Some b)) p \<longleftrightarrow> inBbox b (lat p) (lon p)"
    have ro': "\<And>xs. mset (rowOrder xs) = mset xs" and lo': "\<And>xs. mset (lineOrder xs) = mset xs"
      using ro lo by simp_all
    have sel: "filter_mset (\<lambda>p. lineId p = k \<and> zoom p \<le> bbox_zoom b \<and> holds (mkBbox (Some b)) p) (mset table)
        = filter_mset (\<lambda>p. lineId p = k \<and> zoom p \<le> bbox_zoom b \<and> inBbox b (lat p) (lon p)) (mset table)"
      for k
      using box by (intro filter_mset_cong refl) auto
    have ex: "(\<exists>p \<in> set table. lineId p = k \<and> zoom p \<le> bbox_zoom b \<and> inBbox b (lat p) (lon p))
        \<longleftrightarrow> (\<exists>p \<in> set table. lineId p = k \<and> zoom p \<le> bbox_zoom b \<and> holds (mkBbox (Some b)) p)"
      for k
      using box by blast
    show "(\<forall>(k, tps) \<in> set (getLinePointsForPad mkBbox lineOrder rowOrder lineTable table pid b).
           k \<in> line_id ` {l \<in> set lineTable. line_padId l = pid} \<and> tps \<noteq> [] \<and>
           mset tps = image_mset trackPoint.truncate
             (filter_mset (\<lambda>p. lineId p = k \<and> zoom p \<le> bbox_zoom b \<and> inBbox b (lat p) (lon p))
                (mset table)))
        \<and> (\<forall>k \<in> line_id ` {l \<in> set lineTable. line_padId l = pid}.
             (\<exists>p \<in> set table. lineId p = k \<and> zoom p \<le> bbox_zoom b \<and> inBbox b (lat p) (lon p)) \<longrightarrow>
             k \<in> fst ` set (getLinePointsForPad mkBbox lineOrder rowOrder lineTable table pid b))
        \<and> (distinct (map line_id lineTable) \<longrightarrow>
             distinct (map fst (getLinePointsForPad mkBbox lineOrder rowOrder lineTable table pid b)))"
    proof (intro conjI ballI impI)
      fix x assume "x \<in> set (getLinePointsForPad mkBbox lineOrder rowOrder lineTable table pid b)"
      then have "(fst x, snd x) \<in> set (getLinePointsForPad mkBbox lineOrder rowOrder lineTable table pid b)"
        by simp
      then have "fst x \<in> line_id ` {l \<in> set lineTable. line_padId l = pid} \<and> snd x \<noteq> [] \<and>
           mset (snd x) = image_mset trackPoint.truncate
             (filter_mset (\<lambda>p. lineId p = fst x \<and> zoom p \<le> bbox_zoom b \<and> holds (mkBbox (Some b)) p)
                (mset table))"
        by (rule set_getLinePointsForPad(1) [OF ro' lo'])
      then show "case x of (k, tps) \<Rightarrow>
           k \<in> line_id ` {l \<in> set lineTable. line_padId l = pid} \<and> tps \<noteq> [] \<and>
           mset tps = image_mset trackPoint.truncate
             (filter_mset (\<lambda>p. lineId p = k \<and> zoom p \<le> bbox_zoom b \<and> inBbox b (lat p) (lon p))
                (mset table))"
        by (simp add: sel case_prod_unfold)
    next
      fix k assume "k \<in> line_id ` {l \<in> set lineTable. line_padId l = pid}"
        and "\<exists>p \<in> set table. lineId p = k \<and> zoom p \<le> bbox_zoom b \<and> inBbox b (lat p) (lon p)"
      then show "k \<in> fst ` set (getLinePointsForPad mkBbox lineOrder rowOrder lineTable table pid b)"
        using ex [of k] by (intro set_getLinePointsForPad(2) [OF ro' lo']) blast+
    next
      assume "distinct (map line_id lineTable)"
      then show "distinct (map fst (getLinePointsForPad mkBbox lineOrder rowOrder lineTable table pid b))"
        by (rule distinct_getLinePointsForPad [OF ro' lo'])
    qed
  qed
qed

theorem point_queries_exact_witness:
  "getLinePointsByBbox scenario_table 1 (Some (withZoom scenario_bbox 5)) =
     map idx (sort_key idx (filter
       (\<lambda>p. lineId p = 1 \<and> zoom p \<le> 5 \<and> inBbox scenario_bbox (lat p) (lon p)) scenario_table))
   \<and> distinct (map fst (getLinePointsForPad makeBboxCondition (\<lambda>ls. ls) indexOrder scenario_lines
        (rev scenario_table) ''P'' (withZoom scenario_bbox 15)))
   \<and> 1 \<in> fst ` set (getLinePointsForPad makeBboxCondition (\<lambda>ls. ls) indexOrder scenario_lines
        (rev scenario_table) ''P'' (withZoom scenario_bbox 15))
   \<and> map (\<lambda>(k, tps). (k, mset (map idx tps)))
        (getLinePointsForPad makeBboxCondition (\<lambda>ls. ls) indexOrder scenario_lines scenario_table ''P''
           (withZoom scenario_bbox 5)) = [(1, {#0, 1#})]"
proof -
  have ro: "\<forall>xs. mset (indexOrder xs) = mset xs" by (simp add: mset_indexOrder)
  have lo: "\<forall>xs :: lineRow list. mset ((\<lambda>ls. ls) xs) = mset xs" by simp
  have d: "distinct (map line_id scenario_lines)" by (simp add: scenario_lines_def)
  have l: "1 \<in> line_id ` {l \<in> set scenario_lines. line_padId l = ''P''}"
    by (force simp add: scenario_lines_def)
  have box: "\<forall>p \<in> set scenario_table. holds (makeBboxCondition (Some (withZoom scenario_bbox z))) p
      \<longleftrightarrow> inBbox scenario_bbox (lat p) (lon p)" for z
    using scenario_valid by (simp add: holds_inBbox validPos_def)
  then have box': "\<forall>p \<in> set (rev scenario_table).
      holds (makeBboxCondition (Some (withZoom scenario_bbox 15))) p
      \<longleftrightarrow> inBbox (withZoom scenario_bbox 15) (lat p) (lon p)"
    by (simp add: inBbox_withZoom)
  have ex: "\<exists>p \<in> set (rev scenario_table). lineId p = 1 \<and> zoom p \<le> bbox_zoom (withZoom scenario_bbox 15) \<and>
      inBbox (withZoom scenario_bbox 15) (lat p) (lon p)"
    by (simp add: scenario_table_def scenario_point_def scenario_bbox_def inBbox_def)
  note a = point_queries_exact [where table = scenario_table and lid = 1 and B = scenario_bbox
      and Z = 5 and rowOrder = indexOrder and lineOrder = "\<lambda>ls. ls" and mkBbox = makeBboxCondition
      and lineTable = scenario_lines and pid = "''P''" and b = "withZoom scenario_bbox 15"]
  note b = point_queries_exact [where table = "rev scenario_table" and rowOrder = indexOrder
      and lineOrder = "\<lambda>ls. ls" and mkBbox = makeBboxCondition
      and lineTable = scenario_lines and pid = "''P''" and b = "withZoom scenario_bbox 15",
      THEN conjunct2, THEN conjunct2, THEN conjunct2, THEN conjunct1]
  have g: "1 \<in> fst ` set (getLinePointsForPad makeBboxCondition (\<lambda>ls. ls) indexOrder scenario_lines
        (rev scenario_table) ''P'' (withZoom scenario_bbox 15))"
    and dd: "distinct (map fst (getLinePointsForPad makeBboxCondition (\<lambda>ls. ls) indexOrder scenario_lines
        (rev scenario_table) ''P'' (withZoom scenario_bbox 15)))"
    using b ro lo box' ex l d by blast+
  show ?thesis
    using a scenario_valid ro lo box [of 5] g dd by blast
qed

section \<open>Properties of the replacement of a line's points\<close>

lemma lineId_create: "p \<in> set (create lid tps) \<Longrightarrow> lineId p = lid"
  by (auto simp add: create_def trackPoint.extend_def linePoint.fields_def)

lemma truncate_create: "map trackPoint.truncate (create lid tps) = tps"
  by (induction tps)
    (simp_all add: create_def trackPoint.extend_def linePoint.fields_def trackPoint.truncate_def)

lemma create_Nil: "create lid tps = [] \<longleftrightarrow> tps = []"
  by (simp add: create_def)

lemma filter_line_create:
  "filter (\<lambda>p. lineId p = lid) (create lid tps) = create lid tps"
  "filter (\<lambda>p. lineId p \<noteq> lid) (create lid tps) = []"
  by (auto simp add: filter_id_conv filter_empty_conv lineId_create)

lemma filter_line_take:
  "filter (\<lambda>p. lineId p = lid) (take k (create lid tps)) = take k (create lid tps)"
  "filter (\<lambda>p. lineId p \<noteq> lid) (take k (create lid tps)) = []"
  by (auto simp add: filter_id_conv filter_empty_conv dest!: in_set_takeD lineId_create)

lemma accept_create:
  "lid \<in> set lineIds \<Longrightarrow> list_all (\<lambda>r. lineId r \<in> set lineIds) (create lid tps)"
  by (auto simp add: list_all_iff lineId_create)

lemma refuse_create:
  "lid \<notin> set lineIds \<Longrightarrow> tps \<noteq> [] \<Longrightarrow> \<not> list_all (\<lambda>r. lineId r \<in> set lineIds) (create lid tps)"
  by (cases tps) (auto simp add: create_def trackPoint.extend_def linePoint.fields_def)

lemma setLinePoints_ok:
  "lid \<in> set lineIds \<Longrightarrow>
   setLinePoints lineIds table lid tps = (None, filter (\<lambda>p. lineId p \<noteq> lid) table @ create lid tps)"
  by (simp add: setLinePoints_def setLinePoints_stmts_def accept_create)

lemma setLinePoints_refused:
  "lid \<notin> set lineIds \<Longrightarrow> tps \<noteq> [] \<Longrightarrow>
   setLinePoints lineIds table lid tps
     = (Some ''foreign key constraint fails'', filter (\<lambda>p. lineId p \<noteq> lid) table)"
  by (simp add: setLinePoints_def setLinePoints_stmts_def refuse_create)

lemma states_setLinePoints:
  "states lineIds table (setLinePoints_stmts lid tps) =
     table # filter (\<lambda>p. lineId p \<noteq> lid) table #
       (if list_all (\<lambda>r. lineId r \<in> set lineIds) (create lid tps)
        then [filter (\<lambda>p. lineId p \<noteq> lid) table @ create lid tps] else [])"
  by (simp add: setLinePoints_stmts_def)

lemma run_BulkCreate_batch:
  "0 < n \<Longrightarrow> list_all (\<lambda>r. lineId r \<in> set lineIds) xs \<Longrightarrow>
   run lineIds (map BulkCreate (batch n xs)) t = (None, t @ xs)"
proof (induction n xs arbitrary: t rule: batch.induct)
  case (1 n xs)
  show ?case
  proof (cases "xs = []")
    case True
    then have "batch n xs = []" by (subst batch.simps) simp
    with True show ?thesis by simp
  next
    case False
    with "1.prems" have b: "batch n xs = take n xs # batch n (drop n xs)"
      by (subst batch.simps) simp
    from "1.prems" have a: "list_all (\<lambda>r. lineId r \<in> set lineIds) (take n xs)"
      and d: "list_all (\<lambda>r. lineId r \<in> set lineIds) (drop n xs)"
      by (auto simp add: list_all_iff dest: in_set_takeD in_set_dropD)
    from False "1.prems" have "run lineIds (map BulkCreate (batch n (drop n xs))) (t @ take n xs)
        = (None, (t @ take n xs) @ drop n xs)"
      by (intro "1.IH" d) simp_all
    with a show ?thesis unfolding b by simp
  qed
qed

lemma states_BulkCreate_batch:
  "s \<in> set (states lineIds t (map BulkCreate (batch n xs))) \<Longrightarrow> \<exists>k. s = t @ take k xs"
proof (induction n xs arbitrary: t rule: batch.induct)
  case (1 n xs)
  show ?case
  proof (cases "n = 0 \<or> xs = []")
    case True
    then have "batch n xs = []" by (subst batch.simps) simp
    with "1.prems" have "s = t @ take 0 xs" by simp
    then show ?thesis ..
  next
    case False
    then have b: "batch n xs = take n xs # batch n (drop n xs)" by (subst batch.simps) simp
    from "1.prems" have "s = t \<or> s \<in> set (states lineIds (t @ take n xs) (map BulkCreate (batch n (drop n xs))))"
      unfolding b by (simp split: if_splits)
    then show ?thesis
    proof
      assume "s = t"
      then have "s = t @ take 0 xs" by simp
      then show ?thesis ..
    next
      assume "s \<in> set (states lineIds (t @ take n xs) (map BulkCreate (batch n (drop n xs))))"
      with "1.IH" [OF False] obtain k where "s = (t @ take n xs) @ take k (drop n xs)" by blast
      then have "s = t @ take (n + k) xs" by (simp add: take_add)
      then show ?thesis ..
    qed
  qed
qed

lemma setLinePoints_batched_ok:
  assumes "0 < n" "lid \<in> set lineIds"
  shows "fst (setLinePoints_batched n lineIds table pid lid tps noEvent) =
     (None, filter (\<lambda>p. lineId p \<noteq> lid) table @ create lid tps)"
  using assms
  by (simp add: setLinePoints_batched_def setLinePoints_batched_stmts_def run_BulkCreate_batch
      accept_create)

lemma states_head: "t \<in> set (states lineIds t ss)"
  by (cases ss) simp_all

lemma states_setLinePoints_batched:
  assumes "s \<in> set (states lineIds table (setLinePoints_batched_stmts n lid tps))"
  shows "s = table \<or> (\<exists>k. s = filter (\<lambda>p. lineId p \<noteq> lid) table @ take k (create lid tps))"
  using assms
    states_BulkCreate_batch [of s lineIds "filter (\<lambda>p. lineId p \<noteq> lid) table" n "create lid tps"]
  by (auto simp add: setLinePoints_batched_stmts_def)

text \<open>
  C6, as stated, fails: the replacement is not atomic for a reader. While
  \<^verbatim>\<open>setLinePoints\<close> replaces the three points of line 1 by two new ones, the table is
  visible in a state where line 1 has no points at all, neither the old nor the new
  sequence; with the batched insertion of three new points in batches of two, a state
  is visible in which line 1 has only the first two of them.
\<close>

theorem setLinePoints_not_atomic:
  "filter (\<lambda>p. lineId p = 1) two_line_table = scenario_table
   \<and> setLinePoints [1, 2] two_line_table 1 [tp 0 5, tp 1 6]
       = (None, (scenario_point 0 0 0 1)\<lparr>lineId := 2\<rparr> # create 1 [tp 0 5, tp 1 6])
   \<and> states [1, 2] two_line_table (setLinePoints_stmts 1 [tp 0 5, tp 1 6]) ! 1
       = [(scenario_point 0 0 0 1)\<lparr>lineId := 2\<rparr>]
   \<and> filter (\<lambda>p. lineId p = 1)
        (states [1, 2] two_line_table (setLinePoints_stmts 1 [tp 0 5, tp 1 6]) ! 1) = []
   \<and> filter (\<lambda>p. lineId p = 1)
        (states [1, 2] two_line_table (setLinePoints_batched_stmts 2 1 [tp 0 5, tp 1 6, tp 2 7]) ! 2)
       = create 1 [tp 0 5, tp 1 6]"
  by (simp add: setLinePoints_def setLinePoints_stmts_def setLinePoints_batched_stmts_def
      two_line_table_def scenario_table_def scenario_point_def create_def tp_def
      trackPoint.extend_def linePoint.fields_def batch.simps)

text \<open>
  C6, amended. When the line exists and no other writer interferes,
  \<^verbatim>\<open>setLinePoints(lineId, points)\<close> succeeds and afterwards the stored points of the line
  are exactly the given points and the rows of other lines are unchanged. The replacement
  is not atomic: the state after the deletion, in which the line has no points, is
  visible to a reader, and when the insertion is refused (the line does not exist) the
  call fails and leaves the line without points. In every state a reader can see, the
  rows of other lines are unchanged and the rows of the line are the old ones, or none,
  or the new ones (for the batched insertion: a prefix of the new ones); old and new
  points are never stored together.
\<close>

theorem setLinePoints_replaces_points:
  "(lid \<in> set lineIds \<longrightarrow>
      fst (setLinePoints lineIds table lid tps) = None
      \<and> filter (\<lambda>p. lineId p = lid) (snd (setLinePoints lineIds table lid tps)) = create lid tps
      \<and> map trackPoint.truncate
          (filter (\<lambda>p. lineId p = lid) (snd (setLinePoints lineIds table lid tps))) = tps
      \<and> filter (\<lambda>p. lineId p \<noteq> lid) (snd (setLinePoints lineIds table lid tps))
          = filter (\<lambda>p. lineId p \<noteq> lid) table)
   \<and> (lid \<notin> set lineIds \<and> tps \<noteq> [] \<longrightarrow>
        setLinePoints lineIds table lid tps
          = (Some ''foreign key constraint fails'', filter (\<lambda>p. lineId p \<noteq> lid) table))
   \<and> filter (\<lambda>p. lineId p \<noteq> lid) table \<in> set (states lineIds table (setLinePoints_stmts lid tps))
   \<and> (\<forall>s \<in> set (states lineIds table (setLinePoints_stmts lid tps)).
         filter (\<lambda>p. lineId p \<noteq> lid) s = filter (\<lambda>p. lineId p \<noteq> lid) table \<and>
         (filter (\<lambda>p. lineId p = lid) s = filter (\<lambda>p. lineId p = lid) table \<or>
          filter (\<lambda>p. lineId p = lid) s = [] \<or>
          filter (\<lambda>p. lineId p = lid) s = create lid tps))
   \<and> (0 < n \<and> lid \<in> set lineIds \<longrightarrow>
        fst (fst (setLinePoints_batched n lineIds table pid lid tps noEvent)) = None
        \<and> filter (\<lambda>p. lineId p = lid)
            (snd (fst (setLinePoints_batched n lineIds table pid lid tps noEvent))) = create lid tps
        \<and> filter (\<lambda>p. lineId p \<noteq> lid)
            (snd (fst (setLinePoints_batched n lineIds table pid lid tps noEvent)))
          = filter (\<lambda>p. lineId p \<noteq> lid) table)
   \<and> filter (\<lambda>p. lineId p \<noteq> lid) table
        \<in> set (states lineIds table (setLinePoints_batched_stmts n lid tps))
   \<and> (\<forall>s \<in> set (states lineIds table (setLinePoints_batched_stmts n lid tps)).
         filter (\<lambda>p. lineId p \<noteq> lid) s = filter (\<lambda>p. lineId p \<noteq> lid) table \<and>
         (filter (\<lambda>p. lineId p = lid) s = filter (\<lambda>p. lineId p = lid) table \<or>
          (\<exists>k. filter (\<lambda>p. lineId p = lid) s = take k (create lid tps))))"
proof (intro conjI impI ballI)
  assume l: "lid \<in> set lineIds"
  show "fst (setLinePoints lineIds table lid tps) = None"
    by (simp add: setLinePoints_ok [OF l])
  show "filter (\<lambda>p. lineId p = lid) (snd (setLinePoints lineIds table lid tps)) = create lid tps"
    by (simp add: setLinePoints_ok [OF l] filter_line_create)
  then show "map trackPoint.truncate
      (filter (\<lambda>p. lineId p = lid) (snd (setLinePoints lineIds table lid tps))) = tps"
    by (simp add: truncate_create)
  show "filter (\<lambda>p. lineId p \<noteq> lid) (snd (setLinePoints lineIds table lid tps))
      = filter (\<lambda>p. lineId p \<noteq> lid) table"
    by (simp add: setLinePoints_ok [OF l] filter_line_create)
next
  assume "lid \<notin> set lineIds \<and> tps \<noteq> []"
  then show "setLinePoints lineIds table lid tps
      = (Some ''foreign key constraint fails'', filter (\<lambda>p. lineId p \<noteq> lid) table)"
    by (simp add: setLinePoints_refused)
next
  show "filter (\<lambda>p. lineId p \<noteq> lid) table \<in> set (states lineIds table (setLinePoints_stmts lid tps))"
    by (simp add: states_setLinePoints)
  show "filter (\<lambda>p. lineId p \<noteq> lid) table
      \<in> set (states lineIds table (setLinePoints_batched_stmts n lid tps))"
    by (simp add: setLinePoints_batched_stmts_def states_head)
next
  fix s assume "s \<in> set (states lineIds table (setLinePoints_stmts lid tps))"
  then have s: "s = table \<or> s = filter (\<lambda>p. lineId p \<noteq> lid) table \<or>
      s = filter (\<lambda>p. lineId p \<noteq> lid) table @ create lid tps"
    by (auto simp add: states_setLinePoints split: if_splits)
  then show "filter (\<lambda>p. lineId p \<noteq> lid) s = filter (\<lambda>p. lineId p \<noteq> lid) table"
    by (auto simp add: filter_line_create)
  from s show "filter (\<lambda>p. lineId p = lid) s = filter (\<lambda>p. lineId p = lid) table \<or>
          filter (\<lambda>p. lineId p = lid) s = [] \<or>
          filter (\<lambda>p. lineId p = lid) s = create lid tps"
    by (auto simp add: filter_line_create)
next
  assume n: "0 < n \<and> lid \<in> set lineIds"
  then have e: "fst (setLinePoints_batched n lineIds table pid lid tps noEvent) =
     (None, filter (\<lambda>p. lineId p \<noteq> lid) table @ create lid tps)"
    by (simp add: setLinePoints_batched_ok)
  show "fst (fst (setLinePoints_batched n lineIds table pid lid tps noEvent)) = None"
    by (simp add: e)
  show "filter (\<lambda>p. lineId p = lid)
      (snd (fst (setLinePoints_batched n lineIds table pid lid tps noEvent))) = create lid tps"
    by (simp add: e filter_line_create)
  show "filter (\<lambda>p. lineId p \<noteq> lid)
      (snd (fst (setLinePoints_batched n lineIds table pid lid tps noEvent)))
      = filter (\<lambda>p. lineId p \<noteq> lid) table"
    by (simp add: e filter_line_create)
next
  fix s assume "s \<in> set (states lineIds table (setLinePoints_batched_stmts n lid tps))"
  then have s: "s = table \<or> (\<exists>k. s = filter (\<lambda>p. lineId p \<noteq> lid) table @ take k (create lid tps))"
    by (rule states_setLinePoints_batched)
  then show "filter (\<lambda>p. lineId p \<noteq> lid) s = filter (\<lambda>p. lineId p \<noteq> lid) table"
    by (auto simp add: filter_line_take)
  from s show "filter (\<lambda>p. lineId p = lid) s = filter (\<lambda>p. lineId p = lid) table \<or>
          (\<exists>k. filter (\<lambda>p. lineId p = lid) s = take k (create lid tps))"
    by (auto simp add: filter_line_take)
qed

theorem setLinePoints_replaces_points_witness:
  "fst (setLinePoints [1, 2] two_line_table 1 [tp 0 5, tp 1 6]) = None
   \<and> filter (\<lambda>p. lineId p = 1) (snd (setLinePoints [1, 2] two_line_table 1 [tp 0 5, tp 1 6]))
       = create 1 [tp 0 5, tp 1 6]
   \<and> filter (\<lambda>p. lineId p \<noteq> 1) (snd (setLinePoints [1, 2] two_line_table 1 [tp 0 5, tp 1 6]))
       = [(scenario_point 0 0 0 1)\<lparr>lineId := 2\<rparr>]
   \<and> setLinePoints [2] two_line_table 1 [tp 0 5, tp 1 6]
       = (Some ''foreign key constraint fails'', [(scenario_point 0 0 0 1)\<lparr>lineId := 2\<rparr>])
   \<and> filter (\<lambda>p. lineId p = 1)
         (snd (fst (setLinePoints_batched 2 [1, 2] two_line_table ''P'' 1 [tp 0 5, tp 1 6, tp 2 7] False)))
       = create 1 [tp 0 5, tp 1 6, tp 2 7]
   \<and> list_all (\<lambda>s. filter (\<lambda>p. lineId p = 1) s = filter (\<lambda>p. lineId p = 1) two_line_table \<or>
                    (\<exists>k. filter (\<lambda>p. lineId p = 1) s = take k (create 1 [tp 0 5, tp 1 6, tp 2 7])))
         (states [1, 2] two_line_table (setLinePoints_batched_stmts 2 1 [tp 0 5, tp 1 6, tp 2 7]))"
proof -
  have n: "(0::nat) < 2" by simp
  have l: "(1::nat) \<in> set [1, 2]" "(1::nat) \<notin> set [2]" by simp_all
  have t: "[tp 0 5, tp 1 6] \<noteq> []" by simp
  have o: "filter (\<lambda>p. lineId p \<noteq> 1) two_line_table = [(scenario_point 0 0 0 1)\<lparr>lineId := 2\<rparr>]"
    by (simp add: two_line_table_def scenario_table_def scenario_point_def)
  note ok = setLinePoints_replaces_points [where lineIds = "[1, 2]" and table = two_line_table
      and lid = 1 and n = 2 and pid = "''P''" and noEvent = False]
  note refused = setLinePoints_replaces_points [where lineIds = "[2]" and table = two_line_table
      and lid = 1 and tps = "[tp 0 5, tp 1 6]", THEN conjunct2, THEN conjunct1]
  show ?thesis
    unfolding list_all_iff
    using ok [of "[tp 0 5, tp 1 6]"] ok [of "[tp 0 5, tp 1 6, tp 2 7]"] refused n l t o
    by simp
qed

section \<open>Properties of the pad lookup\<close>

text \<open>
  C9. \<^verbatim>\<open>getPadData(padId)\<close> never reports that a pad was not found: when the lookup
  succeeds without finding a pad, the result is that of creating a pad for this id; and
  it reports an error exactly when the lookup fails or when, no pad being found, the
  creation fails.
\<close>

theorem getPadData_creates_missing_pad:
  "(backend_getPadData backend pid = Inr None \<longrightarrow>
      getPadData backend pid = backend_createPad backend pid)
   \<and> (backend_getPadData backend pid = Inr (Some d) \<longrightarrow> getPadData backend pid = Inr d)
   \<and> (getPadData backend pid = Inl e \<longleftrightarrow>
        backend_getPadData backend pid = Inl e \<or>
        (backend_getPadData backend pid = Inr None \<and> backend_createPad backend pid = Inl e))
   \<and> (getPadData backend pid = Inr d \<longleftrightarrow>
        backend_getPadData backend pid = Inr (Some d) \<or>
        (backend_getPadData backend pid = Inr None \<and> backend_createPad backend pid = Inr d))"
  by (auto simp add: getPadData_def split: sum.splits option.splits)

theorem getPadData_creates_missing_pad_witness:
  "backend_getPadData empty_backend ''Q'' = Inr None
   \<and> getPadData empty_backend ''Q'' = Inr (example_pad\<lparr>obj_pad := ''Q''\<rparr>)"
  using getPadData_creates_missing_pad [of empty_backend "''Q''"]
  by (simp add: empty_backend_def)

section \<open>Properties of the mutation wrappers\<close>

text \<open>
  C8. For the creation, update and deletion of a marker, a line and a view: a notification
  is sent to the pad listeners exactly when the backend write succeeds (for a view, the
  write is attempted only when a name is given); when the write fails its error is the
  caller's result and nothing is sent; when it succeeds exactly one notification is sent.
\<close>

theorem broadcast_iff_write_succeeds:
  "(snd (createMarker backend pid data) \<noteq> [] \<longleftrightarrow> (\<exists>d. backend_createMarker backend pid data = Inr d))
   \<and> (snd (updateMarker backend i data) \<noteq> [] \<longleftrightarrow> (\<exists>d. backend_updateMarker backend i data = Inr d))
   \<and> (snd (deleteMarker backend i) \<noteq> [] \<longleftrightarrow> (\<exists>d. backend_deleteMarker backend i = Inr d))
   \<and> (snd (createLine backend pid data) \<noteq> [] \<longleftrightarrow> (\<exists>d. backend_createLine backend pid data = Inr d))
   \<and> (snd (updateLine backend data) \<noteq> [] \<longleftrightarrow> (\<exists>d. backend_updateLine backend (obj_id data) data = Inr d))
   \<and> (snd (deleteLine backend i) \<noteq> [] \<longleftrightarrow> (\<exists>d. backend_deleteLine backend i = Inr d))
   \<and> (snd (createView backend pid data) \<noteq> [] \<longleftrightarrow>
        \<not> noName data \<and> (\<exists>d. backend_createView backend pid data = Inr d))
   \<and> (snd (updateView backend i data) \<noteq> [] \<longleftrightarrow>
        \<not> noName data \<and> (\<exists>d. backend_updateView backend i data = Inr d))
   \<and> (snd (deleteView backend i) \<noteq> [] \<longleftrightarrow> (\<exists>d. backend_deleteView backend i = Inr d))
   \<and> (backend_createMarker backend pid data = Inl e \<longrightarrow> createMarker backend pid data = (Inl e, []))
   \<and> (backend_updateMarker backend i data = Inl e \<longrightarrow> updateMarker backend i data = (Inl e, []))
   \<and> (backend_deleteMarker backend i = Inl e \<longrightarrow> deleteMarker backend i = (Inl e, []))
   \<and> (backend_createLine backend pid data = Inl e \<longrightarrow> createLine backend pid data = (Inl e, []))
   \<and> (backend_updateLine backend (obj_id data) data = Inl e \<longrightarrow> updateLine backend data = (Inl e, []))
   \<and> (backend_deleteLine backend i = Inl e \<longrightarrow> deleteLine backend i = (Inl e, []))
   \<and> (\<not> noName data \<and> backend_createView backend pid data = Inl e \<longrightarrow>
        createView backend pid data = (Inl e, []))
   \<and> (\<not> noName data \<and> backend_updateView backend i data = Inl e \<longrightarrow>
        updateView backend i data = (Inl e, []))
   \<and> (noName data \<longrightarrow> createView backend pid data = (Inl ''No name provided.'', [])
                      \<and> updateView backend i data = (Inl ''No name provided.'', []))
   \<and> (backend_deleteView backend i = Inl e \<longrightarrow> deleteView backend i = (Inl e, []))
   \<and> (backend_createMarker backend pid data = Inr d \<longrightarrow>
        createMarker backend pid data = (Inr d, [Notify pid (obj_position d) ''marker'' (Whole d)]))
   \<and> (backend_updateMarker backend i data = Inr d \<longrightarrow>
        updateMarker backend i data = (Inr d, [Notify (obj_pad d) (obj_position d) ''marker'' (Whole d)]))
   \<and> (backend_deleteMarker backend i = Inr d \<longrightarrow>
        deleteMarker backend i =
          (Inr d, [Notify (obj_pad d) (obj_position d) ''deleteMarker'' (IdOnly (obj_id d))]))
   \<and> (backend_createLine backend pid data = Inr d \<longrightarrow>
        createLine backend pid data = (Inr d, [Notify (obj_pad d) None ''line'' (Whole d)]))
   \<and> (backend_updateLine backend (obj_id data) data = Inr d \<longrightarrow>
        updateLine backend data = (Inr d, [Notify (obj_pad d) None ''line'' (Whole d)]))
   \<and> (backend_deleteLine backend i = Inr d \<longrightarrow>
        deleteLine backend i = (Inr d, [Notify (obj_pad d) None ''deleteLine'' (IdOnly (obj_id d))]))
   \<and> (\<not> noName data \<and> backend_createView backend pid data = Inr d \<longrightarrow>
        createView backend pid data = (Inr d, [Notify (obj_pad d) None ''view'' (Whole d)]))
   \<and> (\<not> noName data \<and> backend_updateView backend i data = Inr d \<longrightarrow>
        updateView backend i data = (Inr d, [Notify (obj_pad d) None ''view'' (Whole d)]))
   \<and> (backend_deleteView backend i = Inr d \<longrightarrow>
        deleteView backend i = (Inr d, [Notify (obj_pad d) None ''deleteView'' (IdOnly (obj_id d))]))"
  by (simp add: createMarker_def updateMarker_def deleteMarker_def createLine_def updateLine_def
      deleteLine_def createView_def updateView_def deleteView_def split: sum.splits)

theorem broadcast_iff_write_succeeds_witness:
  "createMarker empty_backend ''P'' example_pad
     = (Inr example_pad, [Notify ''P'' None ''marker'' (Whole example_pad)])
   \<and> deleteMarker empty_backend 3 = (Inl ''not found'', [])
   \<and> snd (deleteLine empty_backend 3) = []
   \<and> createView empty_backend ''P'' example_pad = (Inl ''No name provided.'', [])
   \<and> snd (createView empty_backend ''P'' (example_pad\<lparr>obj_name := Some [72, 111, 109, 101]\<rparr>)) \<noteq> []"
  using broadcast_iff_write_succeeds [of empty_backend "''P''" example_pad 3 "''not found''" example_pad]
    broadcast_iff_write_succeeds [of empty_backend "''P''" "example_pad\<lparr>obj_name := Some [72, 111, 109, 101]\<rparr>" 3
      "''not found''" "example_pad\<lparr>obj_name := Some [72, 111, 109, 101]\<rparr>"]
  by (simp add: empty_backend_def example_pad_def noName_def trim_def isSpace_def)

section \<open>Properties of the track point merge\<close>

lemma find_append:
  "find P (xs @ ys) = (case find P xs of Some x \<Rightarrow> Some x | None \<Rightarrow> find P ys)"
  by (induction xs) simp_all

lemma fold_fmupd_lookup:
  "fmlookup (fold (\<lambda>p r. fmupd (idx p) p r) ps m) i =
     (case find (\<lambda>p. idx p = i) (rev ps) of Some p \<Rightarrow> Some p | None \<Rightarrow> fmlookup m i)"
proof (induction ps arbitrary: m)
  case Nil
  then show ?case by simp
next
  case (Cons p ps)
  show ?case
    by (simp add: Cons.IH find_append split: option.splits)
qed

lemma points_mergeTrackPoints:
  "points (mergeTrackPoints e ps) =
     fold (\<lambda>p r. fmupd (idx p) p r) ps (case e of None \<Rightarrow> fmempty | Some e \<Rightarrow> points e)"
  by (simp add: mergeTrackPoints_def Let_def)

lemma mergeTrackPoints_eqI:
  assumes "points (mergeTrackPoints e ps) = points (mergeTrackPoints e' ps')"
  shows "mergeTrackPoints e ps = mergeTrackPoints e' ps'"
proof -
  have "mergeTrackPoints e ps =
      \<lparr>points = points (mergeTrackPoints e ps),
       length' = fold (\<lambda>i len. max len (i + 1))
         (sorted_list_of_fset (fmdom (points (mergeTrackPoints e ps)))) 0\<rparr>" for e ps
    by (simp add: mergeTrackPoints_def Let_def)
  then show ?thesis using assms by metis
qed

lemma lookup_mergeTrackPoints:
  "fmlookup (points (mergeTrackPoints e ps)) i =
     (case find (\<lambda>p. idx p = i) (rev ps) of
        Some p \<Rightarrow> Some p
      | None \<Rightarrow> (case e of None \<Rightarrow> None | Some e \<Rightarrow> fmlookup (points e) i))"
  by (cases e) (simp_all add: points_mergeTrackPoints fold_fmupd_lookup split: option.splits)

lemma find_idx_None: "find (\<lambda>p. idx p = i) xs = None \<longleftrightarrow> i \<notin> idx ` set xs"
  by (auto simp add: find_None_iff)

lemma find_idx_Some: "find (\<lambda>p. idx p = i) xs = Some p \<Longrightarrow> p \<in> set xs \<and> idx p = i"
  by (auto simp add: find_Some_iff)

lemma find_idx_distinct:
  "distinct (map idx xs) \<Longrightarrow> p \<in> set xs \<Longrightarrow> find (\<lambda>q. idx q = idx p) xs = Some p"
  by (induction xs) (auto simp add: rev_image_eqI)

lemma fold_max_Suc:
  "fold (\<lambda>i len. max len (i + 1)) xs a = (if xs = [] then a else max a (Max (set xs) + 1))"
  for xs :: "nat list"
proof (induction xs arbitrary: a)
  case Nil
  then show ?case by simp
next
  case (Cons x xs)
  then show ?case by (cases "xs = []") (auto simp add: max_def)
qed

lemma mergeTrackPoints_length:
  "length' (mergeTrackPoints e ps) =
     (if fmdom (points (mergeTrackPoints e ps)) = {||} then 0
      else fMax (fmdom (points (mergeTrackPoints e ps))) + 1)"
proof -
  let ?d = "fmdom (points (mergeTrackPoints e ps))"
  have l: "length' (mergeTrackPoints e ps) = fold (\<lambda>i len. max len (i + 1)) (sorted_list_of_fset ?d) 0"
    by (simp add: mergeTrackPoints_def Let_def)
  have s: "set (sorted_list_of_fset ?d) = fset ?d" by simp
  show ?thesis
  proof (cases "?d = {||}")
    case True
    then have "sorted_list_of_fset ?d = []"
      by (metis s bot_fset.rep_eq set_empty)
    with True l show ?thesis by simp
  next
    case False
    then have n: "sorted_list_of_fset ?d \<noteq> []"
      by (metis s bot_fset.rep_eq fset_inject set_empty)
    have "Max (fset ?d) = fMax ?d"
      by (simp add: fMax.F.rep_eq)
    with False n show ?thesis
      unfolding l fold_max_Suc s by simp
  qed
qed

lemma merge_twice_append:
  "mergeTrackPoints (Some (mergeTrackPoints None P1)) P2 = mergeTrackPoints None (P1 @ P2)"
  by (rule mergeTrackPoints_eqI) (simp add: points_mergeTrackPoints)

lemma merge_any_order:
  assumes d: "distinct (map idx P)" and s: "set P = set P1 \<union> set P2"
  shows "mergeTrackPoints (Some (mergeTrackPoints None P1)) P2 = mergeTrackPoints None P"
proof (rule mergeTrackPoints_eqI, rule fmap_ext)
  fix i
  have dr: "distinct (map idx (rev P))" using d by (simp add: rev_map [symmetric])
  have hit: "find (\<lambda>q. idx q = i) (rev P) = Some p" if "p \<in> set P1 \<union> set P2" "idx p = i" for p
    using find_idx_distinct [OF dr, of p] that s by auto
  show "fmlookup (points (mergeTrackPoints (Some (mergeTrackPoints None P1)) P2)) i
      = fmlookup (points (mergeTrackPoints None P)) i"
  proof (cases "find (\<lambda>p. idx p = i) (rev P2)")
    case (Some p)
    then have "p \<in> set P2" "idx p = i" using find_idx_Some [OF Some] by auto
    with hit have "find (\<lambda>q. idx q = i) (rev P) = Some p" by simp
    with Some show ?thesis by (simp add: lookup_mergeTrackPoints)
  next
    case n2: None
    show ?thesis
    proof (cases "find (\<lambda>p. idx p = i) (rev P1)")
      case (Some p)
      then have "p \<in> set P1" "idx p = i" using find_idx_Some [OF Some] by auto
      with hit have "find (\<lambda>q. idx q = i) (rev P) = Some p" by simp
      with Some n2 show ?thesis by (simp add: lookup_mergeTrackPoints)
    next
      case None
      with n2 have "i \<notin> idx ` set (rev P)"
        using s by (auto simp add: find_idx_None)
      then have "find (\<lambda>p. idx p = i) (rev P) = None"
        by (simp add: find_idx_None)
      with None n2 show ?thesis by (simp add: lookup_mergeTrackPoints)
    qed
  qed
qed

lemma merge_commute_disjoint:
  assumes "idx ` set P1 \<inter> idx ` set P2 = {}"
  shows "mergeTrackPoints (Some (mergeTrackPoints None P1)) P2 = mergeTrackPoints None (P2 @ P1)"
proof (rule mergeTrackPoints_eqI, rule fmap_ext)
  fix i
  show "fmlookup (points (mergeTrackPoints (Some (mergeTrackPoints None P1)) P2)) i
      = fmlookup (points (mergeTrackPoints None (P2 @ P1))) i"
  proof (cases "find (\<lambda>p. idx p = i) (rev P2)")
    case (Some p)
    then have "i \<in> idx ` set P2" using find_idx_Some [OF Some] by auto
    with assms have "i \<notin> idx ` set (rev P1)" by auto
    then have "find (\<lambda>p. idx p = i) (rev P1) = None" by (simp add: find_idx_None)
    with Some show ?thesis by (simp add: lookup_mergeTrackPoints find_append)
  next
    case None
    then show ?thesis
      by (simp add: lookup_mergeTrackPoints find_append split: option.splits)
  qed
qed

lemma later_batch_wins:
  assumes "i \<in> idx ` set P2"
  shows "\<exists>p \<in> set P2. idx p = i \<and> fmlookup (points (mergeTrackPoints e P2)) i = Some p"
proof (cases "find (\<lambda>p. idx p = i) (rev P2)")
  case None
  with assms show ?thesis by (simp add: find_idx_None)
next
  case (Some p)
  with find_idx_Some [OF Some] show ?thesis
    by (auto simp add: lookup_mergeTrackPoints)
qed

lemma later_batch_wins_distinct:
  assumes "distinct (map idx P2)" "p \<in> set P2"
  shows "fmlookup (points (mergeTrackPoints e P2)) (idx p) = Some p"
proof -
  have "distinct (map idx (rev P2))" using assms by (simp add: rev_map [symmetric])
  then have "find (\<lambda>q. idx q = idx p) (rev P2) = Some p"
    using assms by (intro find_idx_distinct) simp_all
  then show ?thesis by (simp add: lookup_mergeTrackPoints)
qed

lemma merge_keeps_indexes:
  "fmdom (points e) |\<subseteq>| fmdom (points (mergeTrackPoints (Some e) P))"
proof
  fix i assume "i |\<in>| fmdom (points e)"
  then obtain a where "fmlookup (points e) i = Some a" by (auto simp add: fmlookup_dom_iff)
  then have "\<exists>b. fmlookup (points (mergeTrackPoints (Some e) P)) i = Some b"
    by (simp add: lookup_mergeTrackPoints split: option.splits)
  then show "i |\<in>| fmdom (points (mergeTrackPoints (Some e) P))"
    by (simp add: fmlookup_dom_iff)
qed

text \<open>
  C5. Merging a batch \<open>P1\<close> into the empty mapping and then a batch \<open>P2\<close> gives the mapping
  of merging both in one step: the concatenation of the batches, and, when their index
  sets are disjoint, the union in either order (or any batch \<open>P\<close> listing the points of
  both once per index). An index that occurs in \<open>P2\<close> holds a point of \<open>P2\<close> afterwards,
  whatever \<open>P1\<close> stored there. A merge without reset removes no index, also when it is
  applied by the \<^verbatim>\<open>linePoints\<close> handler.
\<close>

theorem mergeTrackPoints_laws:
  "mergeTrackPoints (Some (mergeTrackPoints None P1)) P2 = mergeTrackPoints None (P1 @ P2)
   \<and> (idx ` set P1 \<inter> idx ` set P2 = {} \<longrightarrow>
        mergeTrackPoints (Some (mergeTrackPoints None P1)) P2 = mergeTrackPoints None (P2 @ P1))
   \<and> (distinct (map idx P) \<and> set P = set P1 \<union> set P2 \<longrightarrow>
        mergeTrackPoints (Some (mergeTrackPoints None P1)) P2 = mergeTrackPoints None P)
   \<and> (\<forall>i \<in> idx ` set P2. \<exists>p \<in> set P2. idx p = i \<and>
        fmlookup (points (mergeTrackPoints (Some (mergeTrackPoints None P1)) P2)) i = Some p)
   \<and> (distinct (map idx P2) \<longrightarrow> (\<forall>p \<in> set P2.
        fmlookup (points (mergeTrackPoints (Some (mergeTrackPoints None P1)) P2)) (idx p) = Some p))
   \<and> fmdom (points e) |\<subseteq>| fmdom (points (mergeTrackPoints (Some e) P))
   \<and> (\<forall>l. lines c i = Some l \<longrightarrow>
        (\<exists>l'. lines (handlers c (Ev_linePoints i P False)) i = Some l' \<and>
              fmdom (points (trackPoints l)) |\<subseteq>| fmdom (points (trackPoints l'))))"
proof (intro conjI impI allI ballI)
  show "mergeTrackPoints (Some (mergeTrackPoints None P1)) P2 = mergeTrackPoints None (P1 @ P2)"
    by (rule merge_twice_append)
  show "mergeTrackPoints (Some (mergeTrackPoints None P1)) P2 = mergeTrackPoints None (P2 @ P1)"
    if "idx ` set P1 \<inter> idx ` set P2 = {}"
    using that by (rule merge_commute_disjoint)
  show "mergeTrackPoints (Some (mergeTrackPoints None P1)) P2 = mergeTrackPoints None P"
    if "distinct (map idx P) \<and> set P = set P1 \<union> set P2"
    using that by (auto intro: merge_any_order)
  show "\<exists>p \<in> set P2. idx p = j \<and>
        fmlookup (points (mergeTrackPoints (Some (mergeTrackPoints None P1)) P2)) j = Some p"
    if "j \<in> idx ` set P2" for j
    using that by (rule later_batch_wins)
  show "fmlookup (points (mergeTrackPoints (Some (mergeTrackPoints None P1)) P2)) (idx p) = Some p"
    if "distinct (map idx P2)" "p \<in> set P2" for p
    using that by (rule later_batch_wins_distinct)
  show "fmdom (points e) |\<subseteq>| fmdom (points (mergeTrackPoints (Some e) P))"
    by (rule merge_keeps_indexes)
  show "\<exists>l'. lines (handlers c (Ev_linePoints i P False)) i = Some l' \<and>
              fmdom (points (trackPoints l)) |\<subseteq>| fmdom (points (trackPoints l'))"
    if "lines c i = Some l" for l
    using that by (simp add: merge_keeps_indexes)
qed

theorem mergeTrackPoints_laws_witness:
  "mergeTrackPoints (Some (mergeTrackPoints None [tp 0 1, tp 2 3])) [tp 1 2]
     = mergeTrackPoints None [tp 1 2, tp 0 1, tp 2 3]
   \<and> fmlookup (points (mergeTrackPoints (Some (mergeTrackPoints None [tp 0 1, tp 2 3])) [tp 2 5])) 2
     = Some (tp 2 5)
   \<and> fmdom (points (mergeTrackPoints None [tp 0 1, tp 2 3]))
       |\<subseteq>| fmdom (points (mergeTrackPoints (Some (mergeTrackPoints None [tp 0 1, tp 2 3])) [tp 2 5]))"
proof -
  note any_order = mergeTrackPoints_laws [where ?P1.0 = "[tp 0 1, tp 2 3]" and ?P2.0 = "[tp 1 2]"
      and P = "[tp 1 2, tp 0 1, tp 2 3]", THEN conjunct2, THEN conjunct2, THEN conjunct1]
  note wins = mergeTrackPoints_laws [where ?P1.0 = "[tp 0 1, tp 2 3]" and ?P2.0 = "[tp 2 5]",
      THEN conjunct2, THEN conjunct2, THEN conjunct2, THEN conjunct2, THEN conjunct1]
  note keeps = mergeTrackPoints_laws [where e = "mergeTrackPoints None [tp 0 1, tp 2 3]"
      and P = "[tp 2 5]", THEN conjunct2, THEN conjunct2, THEN conjunct2, THEN conjunct2,
      THEN conjunct2, THEN conjunct1]
  show ?thesis
    using any_order wins keeps by (simp add: tp_def)
qed

section \<open>Properties of the client handlers\<close>

lemma handlers_bbox: "bbox (handlers c ev) = bbox c"
  by (cases ev) (simp_all add: Let_def split: option.splits)

lemma receiveMultiple_bbox: "bbox (receiveMultiple c obj) = bbox c"
proof (cases obj)
  case None
  then show ?thesis by (simp add: receiveMultiple_def)
next
  case (Some evs)
  have "bbox (fold (\<lambda>ev c. handlers c ev) evs c) = bbox c"
    by (induction evs arbitrary: c) (simp_all add: handlers_bbox)
  with Some show ?thesis by (simp add: receiveMultiple_def)
qed

text \<open>
  C7, as stated, fails: for a malformed bbox that the server rejects, the call fails with
  the server's error, but the client has already replaced its stored viewport by the
  malformed bbox; and when the server does not reject it the call succeeds.
\<close>

theorem updateBbox_overwrites_viewport:
  "malformedBbox (withZoom malformed_example 5)
   \<and> bbox example_client = Some (withZoom scenario_bbox 5)
   \<and> fst (updateBbox example_client (withZoom malformed_example 5) (Inl ''invalid bbox''))
        = Inl ''invalid bbox''
   \<and> bbox (snd (updateBbox example_client (withZoom malformed_example 5) (Inl ''invalid bbox'')))
        = Some (withZoom malformed_example 5)
   \<and> bbox (snd (updateBbox example_client (withZoom malformed_example 5) (Inl ''invalid bbox'')))
        \<noteq> bbox example_client
   \<and> fst (updateBbox example_client (withZoom malformed_example 5) (Inr None)) = Inr ()"
  by (simp add: updateBbox_def emit_def receiveMultiple_def example_client_def malformedBbox_def
      malformed_example_def scenario_bbox_def withZoom_def bbox.extend_def bboxWithZoom.fields_def)

text \<open>
  C7, amended. For every client state, every bbox (malformed or not) and every
  acknowledgement of the server, \<^verbatim>\<open>updateBbox\<close> leaves the given bbox as the stored viewport;
  the call fails exactly when the server acknowledges with an error, and with that error.
\<close>

theorem updateBbox_stores_bbox:
  "bbox (snd (updateBbox c b ack)) = Some b
   \<and> (fst (updateBbox c b ack) = Inl e \<longleftrightarrow> ack = Inl e)
   \<and> ((\<exists>obj. ack = Inr obj) \<longleftrightarrow> fst (updateBbox c b ack) = Inr ())"
  by (cases ack) (simp_all add: updateBbox_def emit_def receiveMultiple_bbox)

theorem updateBbox_stores_bbox_witness:
  "bbox (snd (updateBbox example_client (withZoom malformed_example 5) (Inl ''invalid bbox'')))
     = Some (withZoom malformed_example 5)
   \<and> fst (updateBbox example_client (withZoom malformed_example 5) (Inl ''invalid bbox''))
     = Inl ''invalid bbox''
   \<and> fst (updateBbox example_client (withZoom malformed_example 5) (Inr (Some [Ev_deleteView 7])))
     = Inr ()"
  using updateBbox_stores_bbox [of example_client "withZoom malformed_example 5" "Inl ''invalid bbox''"
      "''invalid bbox''"]
    updateBbox_stores_bbox [of example_client "withZoom malformed_example 5"
      "Inr (Some [Ev_deleteView 7])" "''invalid bbox''"]
  by simp

text \<open>
  C10. Handling \<^verbatim>\<open>deleteView\<close> removes the view from the views; when the pad's
  \<^verbatim>\<open>defaultViewId\<close> is the deleted id it becomes \<^verbatim>\<open>null\<close>, and otherwise the pad data is
  unchanged. So afterwards \<^verbatim>\<open>defaultViewId\<close> is never the deleted id, and if it referred to
  a known view before it refers to a known view afterwards.
\<close>

theorem deleteView_keeps_default_view_valid:
  "views (handlers c (Ev_deleteView i)) = (views c)(i := None)
   \<and> (\<forall>pd. padData c = Some pd \<and> defaultViewId pd = Some i \<longrightarrow>
         padData (handlers c (Ev_deleteView i)) = Some (pd\<lparr>defaultViewId := None\<rparr>))
   \<and> ((\<forall>pd. padData c = Some pd \<longrightarrow> defaultViewId pd \<noteq> Some i) \<longrightarrow>
         padData (handlers c (Ev_deleteView i)) = padData c)
   \<and> (\<forall>pd. padData (handlers c (Ev_deleteView i)) = Some pd \<longrightarrow> defaultViewId pd \<noteq> Some i)
   \<and> ((\<forall>pd v. padData c = Some pd \<and> defaultViewId pd = Some v \<longrightarrow> v \<in> dom (views c)) \<longrightarrow>
       (\<forall>pd v. padData (handlers c (Ev_deleteView i)) = Some pd \<and> defaultViewId pd = Some v
           \<longrightarrow> v \<in> dom (views (handlers c (Ev_deleteView i)))))"
  by (cases "padData c") (auto simp add: Let_def)

theorem deleteView_keeps_default_view_valid_witness:
  "padData (handlers example_client (Ev_deleteView 7))
     = Some \<lparr>pad_id = ''P'', pad_writeId = None, pad_adminId = None, pad_name = ''Pad'',
             pad_writable = Some 0, defaultViewId = None\<rparr>
   \<and> padData (handlers example_client (Ev_deleteView 8)) = padData example_client
   \<and> dom (views (handlers example_client (Ev_deleteView 8))) = {7}
   \<and> views (handlers example_client (Ev_deleteView 7)) 7 = None"
  using deleteView_keeps_default_view_valid [of example_client 7]
    deleteView_keeps_default_view_valid [of example_client 8]
  by (simp add: example_client_def)

end
